theory Spec2Isabelle
  imports Main "HOL-Library.Word" "HOL-Library.Sublist"
begin

unbundle bit_operations_syntax

section \<open>The memory backend, as the plugin sees it\<close>

text \<open>
  The client of the memory backend is a black box. An awaited call either resolves with
  a value or rejects; \<open>'a settled\<close> is the outcome of one awaited promise.
\<close>

datatype 'a settled = Resolved 'a | Rejected

record ingest_request =
  req_messages :: "(string \<times> string) list"
  req_containerTag :: string
  req_sessionId :: string
  req_memoryType :: string

record profile_request =
  preq_containerTag :: string
  preq_includeDynamic :: bool
  preq_generateNarrative :: bool

record static_fact =
  fact_content :: string

record profile_response =
  narrative :: "string option"
  staticFacts :: "static_fact list"

record search_request =
  sreq_q :: string
  sreq_containerTags :: "string list"
  sreq_limit :: nat
  sreq_scope :: string

record search_hit =
  hit_content :: "string option"

record search_response =
  results :: "search_hit list option"

record MomoClient =
  conversations_ingest :: "ingest_request \<Rightarrow> unit settled"
  profile_compute :: "profile_request \<Rightarrow> profile_response settled"
  search_search :: "search_request \<Rightarrow> search_response settled"

section \<open>Compaction tracker (src/services/compaction.ts)\<close>

text \<open>
  The module keeps one mutable map \<open>sessionStates\<close> from session identifiers to
  \<open>CompactionSessionState\<close> objects. The map is passed explicitly here; the reading of
  \<open>Date.now()\<close> taken inside the handler is the parameter \<open>now\<close> (milliseconds, an
  integer). The handler catches a rejection of the ingestion call and carries on.
\<close>

record CompactionSessionState =
  lastCompaction :: int
  inProgress :: bool

definition COMPACTION_COOLDOWN_MS :: int where
  "COMPACTION_COOLDOWN_MS = 30000"

type_synonym sessionStates = "string \<rightharpoonup> CompactionSessionState"

definition getState :: "string \<Rightarrow> sessionStates \<Rightarrow> CompactionSessionState \<times> sessionStates" where
  "getState sessionID states =
     (case states sessionID of
        None \<Rightarrow>
          (let state = \<lparr>lastCompaction = 0, inProgress = False\<rparr>
           in (state, states(sessionID \<mapsto> state)))
      | Some state \<Rightarrow> (state, states))"

datatype msg_role = RoleUser | RoleAssistant

text \<open>
  The part of the host's message info the handler reads: \<open>summary\<close> is an optional
  boolean and \<open>finish\<close> an optional string; both are tested for truthiness.
\<close>

record message_info =
  info_role :: msg_role
  info_sessionID :: string
  info_summary :: "bool option"
  info_finish :: "string option"

datatype event =
    SessionCompacted string
  | MessageUpdated message_info
  | SessionDeleted string
  | OtherEvent string

definition truthy_bool :: "bool option \<Rightarrow> bool" where
  "truthy_bool b = (case b of None \<Rightarrow> False | Some v \<Rightarrow> v)"

definition truthy_str :: "string option \<Rightarrow> bool" where
  "truthy_str s = (case s of None \<Rightarrow> False | Some v \<Rightarrow> v \<noteq> [])"

definition marker_request :: "string \<Rightarrow> string \<Rightarrow> ingest_request" where
  "marker_request sessionID containerTag =
     \<lparr>req_messages =
        [(''assistant'', ''[Session compaction summary for session '' @ sessionID @ '']'')],
      req_containerTag = containerTag,
      req_sessionId = sessionID,
      req_memoryType = ''episode''\<rparr>"

text \<open>
  The handler returns the map after the event and the list of ingestion requests it sent
  to the backend while handling it.
\<close>

fun handleCompactionEvent ::
  "event \<Rightarrow> MomoClient \<Rightarrow> string \<Rightarrow> int \<Rightarrow> sessionStates
     \<Rightarrow> sessionStates \<times> ingest_request list" where
  "handleCompactionEvent (SessionCompacted sessionID) momo containerTag now states =
     (let (state, states1) = getState sessionID states
      in (states1(sessionID \<mapsto> state\<lparr>inProgress := True\<rparr>), []))"
| "handleCompactionEvent (MessageUpdated info) momo containerTag now states =
     (if info_role info \<noteq> RoleAssistant then (states, [])
      else if \<not> truthy_bool (info_summary info) \<or> \<not> truthy_str (info_finish info)
        then (states, [])
      else
        (let sid = info_sessionID info;
             (state, states1) = getState sid states
         in if \<not> inProgress state then (states1, [])
            else if now - lastCompaction state < COMPACTION_COOLDOWN_MS
              then (states1(sid \<mapsto> state\<lparr>inProgress := False\<rparr>), [])
            else
              (let states2 = states1(sid \<mapsto> state\<lparr>inProgress := False, lastCompaction := now\<rparr>);
                   req = marker_request sid containerTag
               in case conversations_ingest momo req of
                    Resolved u \<Rightarrow> (states2, [req])
                  | Rejected \<Rightarrow> (states2, [req]))))"
| "handleCompactionEvent (SessionDeleted sid) momo containerTag now states =
     (states(sid := None), [])"
| "handleCompactionEvent (OtherEvent ty) momo containerTag now states = (states, [])"

text \<open>
  A sequence of events, each with the clock reading of its handling, processed in order;
  the requests are collected in the order they were sent.
\<close>

fun handleEvents ::
  "(event \<times> int) list \<Rightarrow> MomoClient \<Rightarrow> string \<Rightarrow> sessionStates
     \<Rightarrow> sessionStates \<times> ingest_request list" where
  "handleEvents [] momo containerTag states = (states, [])"
| "handleEvents ((ev, now) # rest) momo containerTag states =
     (let (states1, reqs1) = handleCompactionEvent ev momo containerTag now states;
          (states2, reqs2) = handleEvents rest momo containerTag states1
      in (states2, reqs1 @ reqs2))"

text \<open>The events of the scenario, as the host delivers them.\<close>

definition CompactionStarted :: "string \<Rightarrow> event" where
  "CompactionStarted sid = SessionCompacted sid"

definition SummaryReady :: "string \<Rightarrow> event" where
  "SummaryReady sid =
     MessageUpdated \<lparr>info_role = RoleAssistant, info_sessionID = sid,
       info_summary = Some True, info_finish = Some ''stop''\<rparr>"

definition SessionEnded :: "string \<Rightarrow> event" where
  "SessionEnded sid = SessionDeleted sid"

definition compactionPair :: "string \<Rightarrow> int \<Rightarrow> (event \<times> int) list" where
  "compactionPair sid now = [(CompactionStarted sid, now), (SummaryReady sid, now)]"

section \<open>Configuration (config.ts)\<close>

text \<open>
  What the process can observe: its environment variables, the home directory, the file
  system, and the library functions the module calls that are not part of it
  (\<open>path.join\<close>, \<open>stripJsoncComments\<close> of services/jsonc, \<open>JSON.parse\<close>). They
  are parameters of the model, so every theorem holds for every such host.

  \<open>JSON.parse\<close> either throws or returns a JSON value, any JSON value: the cast
  \<open>as MomoConfigFile\<close> leaves no trace at run time. A value of the program is a JSON
  value or \<open>undefined\<close>, which is \<open>None\<close>. A number is kept as its literal; the program
  never computes with one. An object is the list of its properties, each key once, as
  \<open>JSON.parse\<close> builds it.
\<close>

datatype js_error = ENOENT | EACCES | SyntaxError | TypeError

datatype file_state = Absent | Unreadable | Content string

datatype json =
    JNull
  | JBool bool
  | JNumber string
  | JString string
  | JArray "json list"
  | JObject "(string \<times> json) list"

type_synonym js_value = "json option"

record MomoConfig =
  apiKey :: js_value
  baseUrl :: js_value
  containerTagUser :: js_value
  containerTagProject :: js_value

record host =
  process_env :: "string \<rightharpoonup> string"
  homedir :: string
  path_join :: "string list \<Rightarrow> string"
  files :: "string \<Rightarrow> file_state"
  stripJsoncComments :: "string \<Rightarrow> string"
  JSON_parse :: "string \<Rightarrow> js_error + json"

definition DEFAULT_BASE_URL :: string where
  "DEFAULT_BASE_URL = ''http://localhost:3000''"

definition readFileSync :: "host \<Rightarrow> string \<Rightarrow> js_error + string" where
  "readFileSync h path =
     (case files h path of
        Absent \<Rightarrow> Inl ENOENT
      | Unreadable \<Rightarrow> Inl EACCES
      | Content raw \<Rightarrow> Inr raw)"

definition existsSync :: "host \<Rightarrow> string \<Rightarrow> bool" where
  "existsSync h path = (files h path \<noteq> Absent)"

definition getConfigDir :: "host \<Rightarrow> string" where
  "getConfigDir h =
     (if truthy_str (process_env h ''XDG_CONFIG_HOME'')
      then path_join h [the (process_env h ''XDG_CONFIG_HOME''), ''opencode'']
      else path_join h [homedir h, ''.config'', ''opencode''])"

text \<open>The object literal \<open>{}\<close>.\<close>

definition emptyObject :: json where
  "emptyObject = JObject []"

text \<open>The body of the \<open>try\<close> block: any step may throw.\<close>

definition readAndParse :: "host \<Rightarrow> string \<Rightarrow> js_error + json" where
  "readAndParse h configPath =
     (case readFileSync h configPath of
        Inl e \<Rightarrow> Inl e
      | Inr raw \<Rightarrow> JSON_parse h (stripJsoncComments h raw))"

definition readJsoncConfigFile :: "host \<Rightarrow> string \<Rightarrow> json" where
  "readJsoncConfigFile h configPath =
     (case readAndParse h configPath of
        Inl e \<Rightarrow> emptyObject
      | Inr parsed \<Rightarrow> parsed)"

definition readConfigFile :: "host \<Rightarrow> json" where
  "readConfigFile h = readJsoncConfigFile h (path_join h [getConfigDir h, ''momo.jsonc''])"

definition readProjectConfigFile :: "host \<Rightarrow> string option \<Rightarrow> json" where
  "readProjectConfigFile h directory =
     (if \<not> truthy_str directory then emptyObject
      else
        (let dotPath = path_join h [the directory, ''.momo.jsonc''];
             plainPath = path_join h [the directory, ''momo.jsonc'']
         in if existsSync h dotPath then readJsoncConfigFile h dotPath
            else if existsSync h plainPath then readJsoncConfigFile h plainPath
            else emptyObject))"

text \<open>
  Reading a property, \<open>config.key\<close>: on \<open>null\<close> it raises a TypeError; on an object it is
  the property's value or \<open>undefined\<close>; on any other value it is \<open>undefined\<close> (for the
  four keys the module reads, none of which a string, a number, a boolean or an array
  has).
\<close>

definition getProp :: "json \<Rightarrow> string \<Rightarrow> js_error + js_value" where
  "getProp config key =
     (case config of
        JNull \<Rightarrow> Inl TypeError
      | JObject props \<Rightarrow> Inr (map_of props key)
      | JBool b \<Rightarrow> Inr None
      | JNumber n \<Rightarrow> Inr None
      | JString s \<Rightarrow> Inr None
      | JArray xs \<Rightarrow> Inr None)"

text \<open>
  The operator \<open>??\<close>: the left operand unless it is \<open>null\<close> or \<open>undefined\<close>, and the
  right operand is evaluated only then. Both operands are given with what their
  evaluation yields, a value or an error; the right one counts only where it is chosen.
\<close>

definition isNullish :: "js_value \<Rightarrow> bool" where
  "isNullish v = (v = None \<or> v = Some JNull)"

definition coalesce :: "js_error + js_value \<Rightarrow> js_error + js_value \<Rightarrow> js_error + js_value" where
  "coalesce left right =
     (case left of
        Inl e \<Rightarrow> Inl e
      | Inr v \<Rightarrow> if isNullish v then right else Inr v)"

text \<open>Evaluation in sequence: the first error ends it.\<close>

definition thenE :: "js_error + 'a \<Rightarrow> ('a \<Rightarrow> js_error + 'b) \<Rightarrow> js_error + 'b" where
  "thenE x f = (case x of Inl e \<Rightarrow> Inl e | Inr v \<Rightarrow> f v)"

definition envVar :: "host \<Rightarrow> string \<Rightarrow> js_value" where
  "envVar h name = map_option JString (process_env h name)"

text \<open>
  The project-aware \<open>loadConfig\<close>. The fields of the object literal are evaluated in the
  order written, and \<open>a ?? b ?? c\<close> is \<open>(a ?? b) ?? c\<close>.
\<close>

definition loadConfig :: "host \<Rightarrow> string option \<Rightarrow> js_error + MomoConfig" where
  "loadConfig h directory =
     (let globalConfig = readConfigFile h;
          projectConfig = readProjectConfigFile h directory;
          envApiKey = envVar h ''MOMO_API_KEY'';
          envBaseUrl = envVar h ''MOMO_BASE_URL'';
          envContainerTagUser = envVar h ''MOMO_CONTAINER_TAG_USER'';
          envContainerTagProject = envVar h ''MOMO_CONTAINER_TAG_PROJECT''
      in
        thenE (coalesce (coalesce (Inr envApiKey) (getProp projectConfig ''apiKey''))
                 (getProp globalConfig ''apiKey'')) (\<lambda>apiKeyV.
        thenE (coalesce (coalesce (coalesce (Inr envBaseUrl) (getProp projectConfig ''baseUrl''))
                 (getProp globalConfig ''baseUrl'')) (Inr (Some (JString DEFAULT_BASE_URL))))
          (\<lambda>baseUrlV.
        thenE (coalesce (coalesce (Inr envContainerTagUser)
                 (getProp projectConfig ''containerTagUser''))
                 (getProp globalConfig ''containerTagUser'')) (\<lambda>userV.
        thenE (coalesce (coalesce (Inr envContainerTagProject)
                 (getProp projectConfig ''containerTagProject''))
                 (getProp globalConfig ''containerTagProject'')) (\<lambda>projectV.
        Inr \<lparr>apiKey = apiKeyV, baseUrl = baseUrlV,
             containerTagUser = userV, containerTagProject = projectV\<rparr>)))))"

text \<open>
  The older single-file \<open>loadConfig\<close> of src/config.ts: no project file, and only the
  API key and the base URL can come from the environment.
\<close>

definition loadConfig_single :: "host \<Rightarrow> js_error + MomoConfig" where
  "loadConfig_single h =
     (let fileConfig = readConfigFile h;
          envApiKey = envVar h ''MOMO_API_KEY'';
          envBaseUrl = envVar h ''MOMO_BASE_URL''
      in
        thenE (coalesce (Inr envApiKey) (getProp fileConfig ''apiKey'')) (\<lambda>apiKeyV.
        thenE (coalesce (coalesce (Inr envBaseUrl) (getProp fileConfig ''baseUrl''))
                 (Inr (Some (JString DEFAULT_BASE_URL)))) (\<lambda>baseUrlV.
        thenE (getProp fileConfig ''containerTagUser'') (\<lambda>userV.
        thenE (getProp fileConfig ''containerTagProject'') (\<lambda>projectV.
        Inr \<lparr>apiKey = apiKeyV, baseUrl = baseUrlV,
             containerTagUser = userV, containerTagProject = projectV\<rparr>)))))"

text \<open>
  The resolution rule as the specification words it: a source of a field is set when it
  holds a value other than \<open>null\<close>; of the sources of one field, in order of precedence,
  the first that is set; a field that no source sets is absent.
\<close>

definition isSet :: "js_value \<Rightarrow> bool" where
  "isSet v = (\<not> isNullish v)"

definition firstSet :: "js_value list \<Rightarrow> js_value" where
  "firstSet sources =
     (case filter isSet sources of
        [] \<Rightarrow> None
      | s # rest \<Rightarrow> s)"

record field_sources =
  from_env :: js_value
  from_project :: js_value
  from_global :: js_value

definition resolveField :: "field_sources \<Rightarrow> js_value" where
  "resolveField f = firstSet [from_env f, from_project f, from_global f]"

definition withDefault :: "string \<Rightarrow> js_value \<Rightarrow> js_value" where
  "withDefault d v = (case v of None \<Rightarrow> Some (JString d) | Some x \<Rightarrow> Some x)"

text \<open>What a field of the result holds, \<open>null\<close> read as absent.\<close>

definition present :: "js_value \<Rightarrow> js_value" where
  "present v = (if isNullish v then None else v)"

text \<open>The value a configuration file holds for a key, when the file is not \<open>null\<close>.\<close>

definition fieldOf :: "json \<Rightarrow> string \<Rightarrow> js_value" where
  "fieldOf config key = (case config of JObject props \<Rightarrow> map_of props key | _ \<Rightarrow> None)"

section \<open>Container tags (services/tags.ts)\<close>

text \<open>
  Strings are lists of 8-bit characters here, one per code unit of the source's string.
  \<open>simpleHash\<close> keeps \<open>h\<close> a 32-bit integer: the operator \<open>^\<close> converts the product
  \<open>h * 33\<close> (exact in a double, since \<open>h\<close> is below \<open>2^31\<close> in absolute value) to 32 bits
  before the exclusive or, so each step is arithmetic modulo \<open>2^32\<close>; \<open>h >>> 0\<close> reads
  the result as unsigned.
\<close>

definition hexDigit :: "nat \<Rightarrow> char" where
  "hexDigit d = ''0123456789abcdef'' ! d"

fun toString16 :: "nat \<Rightarrow> string" where
  "toString16 n = (if n < 16 then [hexDigit n] else toString16 (n div 16) @ [hexDigit (n mod 16)])"

definition charCodeAt :: "char \<Rightarrow> 32 word" where
  "charCodeAt c = of_char c"

definition simpleHash :: "string \<Rightarrow> string" where
  "simpleHash input = toString16 (unat (foldl (\<lambda>h c. (h * 33) XOR charCodeAt c) 5381 input))"

definition padStart :: "nat \<Rightarrow> char \<Rightarrow> string \<Rightarrow> string" where
  "padStart n c s = replicate (n - length s) c @ s"

definition sliceLast :: "nat \<Rightarrow> string \<Rightarrow> string" where
  "sliceLast n s = drop (length s - n) s"

definition shortHash :: "string \<Rightarrow> string" where
  "shortHash input = sliceLast 8 (padStart 8 (CHR ''0'') (simpleHash input))"

definition codeUnit :: "char \<Rightarrow> nat" where
  "codeUnit c = of_char c"

text \<open>
  \<open>toLowerCase\<close> on one character: the letters A to Z go to a to z. (The other
  8-bit characters it changes are outside \<open>a-z0-9\<close> before and after, and \<open>slugify\<close>
  turns them into dashes either way.)
\<close>

definition toLowerCase :: "char \<Rightarrow> char" where
  "toLowerCase c =
     (case map_of (zip ''ABCDEFGHIJKLMNOPQRSTUVWXYZ'' ''abcdefghijklmnopqrstuvwxyz'') c of
        Some l \<Rightarrow> l
      | None \<Rightarrow> c)"

definition isSlugChar :: "char \<Rightarrow> bool" where
  "isSlugChar c =
     ((codeUnit (CHR ''a'') \<le> codeUnit c \<and> codeUnit c \<le> codeUnit (CHR ''z'')) \<or>
      (codeUnit (CHR ''0'') \<le> codeUnit c \<and> codeUnit c \<le> codeUnit (CHR ''9'')))"

text \<open>\<open>replace(/[^a-z0-9]+/g, "-")\<close>: every maximal run of other characters becomes one dash.\<close>

function dashRuns :: "string \<Rightarrow> string" where
  "dashRuns [] = []"
| "dashRuns (c # cs) =
     (if isSlugChar c then c # dashRuns cs
      else CHR ''-'' # dashRuns (dropWhile (\<lambda>d. \<not> isSlugChar d) cs))"
  by pat_completeness auto
termination
  by (relation "measure length") (auto intro: le_imp_less_Suc length_dropWhile_le)

definition trimDashes :: "string \<Rightarrow> string" where
  "trimDashes s =
     rev (dropWhile (\<lambda>c. c = CHR ''-'') (rev (dropWhile (\<lambda>c. c = CHR ''-'') s)))"

definition slugify :: "string \<Rightarrow> string" where
  "slugify v = take 80 (trimDashes (dashRuns (map toLowerCase v)))"

text \<open>
  The account name (\<open>os.userInfo().username\<close>) and \<open>path.basename\<close> belong to the
  platform, not to the module.
\<close>

record platform =
  username :: string
  basename :: "string \<Rightarrow> string"

record tags =
  user :: string
  project :: string

record tag_overrides =
  ov_containerTagUser :: "string option"
  ov_containerTagProject :: "string option"

definition orElse :: "string \<Rightarrow> string \<Rightarrow> string" where
  "orElse s d = (if s \<noteq> [] then s else d)"

definition userTag :: "platform \<Rightarrow> string" where
  "userTag pf = ''opencode-user-'' @ simpleHash (orElse (username pf) ''unknown'')"

definition isPathSep :: "char \<Rightarrow> bool" where
  "isPathSep c = (c = CHR ''/'' \<or> c = CHR 0x5C)"

definition stripTrailingSeps :: "string \<Rightarrow> string" where
  "stripTrailingSeps dir = rev (dropWhile isPathSep (rev dir))"

definition projectTag :: "platform \<Rightarrow> string \<Rightarrow> string" where
  "projectTag pf directory =
     (let dir = orElse directory ''.'';
          projectName = basename pf (stripTrailingSeps dir);
          slug = orElse (slugify projectName) ''project'';
          hash = shortHash dir
      in ''ocp-'' @ slug @ ''-'' @ hash)"

definition getTags :: "platform \<Rightarrow> string \<Rightarrow> tags" where
  "getTags pf directory = \<lparr>user = userTag pf, project = projectTag pf directory\<rparr>"

definition getTagsWithOverrides :: "platform \<Rightarrow> string \<Rightarrow> tag_overrides option \<Rightarrow> tags" where
  "getTagsWithOverrides pf directory overrides =
     (let tags0 = getTags pf directory;
          ovUser = Option.bind overrides ov_containerTagUser;
          ovProject = Option.bind overrides ov_containerTagProject;
          tags1 = (if truthy_str ovUser then tags0\<lparr>user := the ovUser\<rparr> else tags0);
          tags2 = (if truthy_str ovProject then tags1\<lparr>project := the ovProject\<rparr> else tags1)
      in tags2)"

text \<open>
  What \<open>writeMomoConfig\<close> of the configure command stores in the two override fields:
  the string already in the file, otherwise the empty string.
\<close>

definition writtenOverride :: "string option \<Rightarrow> string" where
  "writtenOverride prior = (case prior of Some v \<Rightarrow> v | None \<Rightarrow> [])"

section \<open>Privacy filter (src/services/privacy.ts)\<close>

text \<open>
  \<open>text.replace(/<private>[\s\S]*?<\/private>/g, "")\<close> scans from the left. Where the
  opening marker stands and a closing marker follows it, the lazy \<open>*?\<close> ends the match
  at the first closing marker, the match is deleted and the scan goes on behind it;
  anywhere else the character is kept and the scan moves one character on.
\<close>

definition openMarker :: string where
  "openMarker = ''<private>''"

definition closeMarker :: string where
  "closeMarker = ''</private>''"

text \<open>The text behind the first closing marker, if there is one.\<close>

fun afterClose :: "string \<Rightarrow> string option" where
  "afterClose [] = None"
| "afterClose (c # cs) =
     (if prefix closeMarker (c # cs) then Some (drop (length closeMarker) (c # cs))
      else afterClose cs)"

lemma afterClose_shorter: "afterClose s = Some r \<Longrightarrow> length r < length s"
  by (induction s) (auto simp: closeMarker_def split: if_splits)

function removePrivate :: "string \<Rightarrow> string" where
  "removePrivate [] = []"
| "removePrivate (c # cs) =
     (if prefix openMarker (c # cs) then
        (case afterClose (drop (length openMarker) (c # cs)) of
           Some rest \<Rightarrow> removePrivate rest
         | None \<Rightarrow> c # removePrivate cs)
      else c # removePrivate cs)"
  by pat_completeness auto
termination
proof (relation "measure length")
  fix c cs rest
  assume "afterClose (drop (length openMarker) (c # cs)) = Some rest"
  then have "length rest < length (drop (length openMarker) (c # cs))"
    by (rule afterClose_shorter)
  then show "(rest, c # cs) \<in> measure length"
    by simp
qed simp_all

text \<open>
  \<open>String.prototype.trim\<close> removes white space and line terminators from both ends;
  these are the ones among the 8-bit code units.
\<close>

definition isWhiteSpace :: "char \<Rightarrow> bool" where
  "isWhiteSpace c = (codeUnit c \<in> {9, 10, 11, 12, 13, 32, 160})"

definition trim :: "string \<Rightarrow> string" where
  "trim s = rev (dropWhile isWhiteSpace (rev (dropWhile isWhiteSpace s)))"

text \<open>
  The argument is declared a string; the guard \<open>!text\<close> also covers a caller that
  passes \<open>undefined\<close>, which is \<open>None\<close> here.
\<close>

definition stripPrivateContent :: "string option \<Rightarrow> string" where
  "stripPrivateContent text =
     (if \<not> truthy_str text then [] else trim (removePrivate (the text)))"

definition isFullyPrivate :: "string option \<Rightarrow> bool" where
  "isFullyPrivate text = (let stripped = stripPrivateContent text in length stripped = 0)"

section \<open>Context formatter (services/context.ts)\<close>

record MemoryItem =
  content :: "string option"
  memoryType :: "string option"
  mem_id :: "string option"
  createdAt :: "string option"

text \<open>Of \<open>ProfileData\<close> the formatter reads the summary and the traits only.\<close>

record ProfileData =
  summary :: "string option"
  traits :: "string list option"

text \<open>\<open>Array.prototype.join\<close>.\<close>

fun joinWith :: "string \<Rightarrow> string list \<Rightarrow> string" where
  "joinWith sep [] = []"
| "joinWith sep [x] = x"
| "joinWith sep (x # y # ys) = x @ sep @ joinWith sep (y # ys)"

text \<open>A value inside a template literal: \<open>undefined\<close> prints as that word.\<close>

definition interpolate :: "string option \<Rightarrow> string" where
  "interpolate v = (case v of None \<Rightarrow> ''undefined'' | Some s \<Rightarrow> s)"

definition newline :: string where
  "newline = [CHR 0x0A]"

definition memoryLine :: "MemoryItem \<Rightarrow> string" where
  "memoryLine m =
     (let typeLabel = (if truthy_str (memoryType m) then '' ['' @ the (memoryType m) @ '']'' else [])
      in ''- '' @ interpolate (content m) @ typeLabel)"

definition beginMarker :: string where
  "beginMarker = ''[MOMO MEMORY - Context from previous sessions]''"

definition endMarker :: string where
  "endMarker = ''[END MOMO MEMORY]''"

definition profileSection :: "ProfileData option \<Rightarrow> string list" where
  "profileSection profile =
     (if truthy_str (Option.bind profile summary)
      then [''## User Profile'' @ newline @ the (Option.bind profile summary)]
      else [])"

definition traitLine :: "string \<Rightarrow> string" where
  "traitLine t = ''- '' @ t"

definition traitsSection :: "ProfileData option \<Rightarrow> string list" where
  "traitsSection profile =
     (case Option.bind profile traits of
        None \<Rightarrow> []
      | Some ts \<Rightarrow>
          if length ts > 0
          then [''## Known Preferences'' @ newline @ joinWith newline (map traitLine ts)]
          else [])"

definition memorySection :: "string \<Rightarrow> MemoryItem list \<Rightarrow> string list" where
  "memorySection title memories =
     (if length memories > 0
      then [title @ newline @ joinWith newline (map memoryLine memories)]
      else [])"

definition formatContextForPrompt ::
  "ProfileData option \<Rightarrow> MemoryItem list \<Rightarrow> MemoryItem list \<Rightarrow> string" where
  "formatContextForPrompt profile userMemories projectMemories =
     (let sections =
            profileSection profile @ traitsSection profile @
            memorySection ''## Recent User Context'' userMemories @
            memorySection ''## Project Knowledge'' projectMemories
      in if length sections = 0 then []
         else beginMarker @ newline @ newline @ joinWith (newline @ newline) sections @
              newline @ newline @ endMarker)"

section \<open>The plugin's hooks (index.ts)\<close>

text \<open>
  \<open>injectedSessions\<close> is a module-level set of session identifiers; the hook receives
  it and returns it updated, together with the list of parts after the call. The client
  is \<open>None\<close> when the plugin is not configured.
\<close>

record hook_input =
  in_sessionID :: string
  in_messageID :: "string option"

record part =
  part_id :: string
  part_sessionID :: string
  part_messageID :: string
  part_type :: string
  part_text :: string
  part_synthetic :: bool
  part_source :: string

text \<open>\<open>promise.catch(() => fallback)\<close> and \<open>r.results ?? []\<close>.\<close>

definition catchNull :: "'a settled \<Rightarrow> 'a option" where
  "catchNull p = (case p of Resolved v \<Rightarrow> Some v | Rejected \<Rightarrow> None)"

definition searchResults :: "search_response settled \<Rightarrow> search_hit list" where
  "searchResults p =
     (case p of
        Resolved r \<Rightarrow> (case results r of Some hits \<Rightarrow> hits | None \<Rightarrow> [])
      | Rejected \<Rightarrow> [])"

definition hitItem :: "search_hit \<Rightarrow> MemoryItem" where
  "hitItem m = \<lparr>content = hit_content m, memoryType = None, mem_id = None, createdAt = None\<rparr>"

definition profileData :: "profile_response option \<Rightarrow> ProfileData option" where
  "profileData profile =
     (case profile of
        Some p \<Rightarrow> Some \<lparr>summary = narrative p, traits = Some (map fact_content (staticFacts p))\<rparr>
      | None \<Rightarrow> None)"

definition chatMessageHook ::
  "MomoClient option \<Rightarrow> tags \<Rightarrow> hook_input \<Rightarrow> part list \<Rightarrow> string set
     \<Rightarrow> string set \<times> part list" where
  "chatMessageHook momo tgs input parts injectedSessions =
     (if in_sessionID input \<in> injectedSessions then (injectedSessions, parts)
      else case momo of
        None \<Rightarrow> (injectedSessions, parts)
      | Some client \<Rightarrow>
          (let injected = insert (in_sessionID input) injectedSessions;
               profile = catchNull (profile_compute client
                 \<lparr>preq_containerTag = user tgs, preq_includeDynamic = True,
                  preq_generateNarrative = True\<rparr>);
               userMemories = searchResults (search_search client
                 \<lparr>sreq_q = ''recent context'', sreq_containerTags = [user tgs],
                  sreq_limit = 5, sreq_scope = ''hybrid''\<rparr>);
               projectMemories = searchResults (search_search client
                 \<lparr>sreq_q = ''project context'', sreq_containerTags = [project tgs],
                  sreq_limit = 5, sreq_scope = ''hybrid''\<rparr>);
               contextText = formatContextForPrompt (profileData profile)
                 (map hitItem userMemories) (map hitItem projectMemories)
           in if contextText = [] then (injected, parts)
              else
                (let syntheticPart =
                   \<lparr>part_id = ''momo-context-'' @ in_sessionID input,
                    part_sessionID = in_sessionID input,
                    part_messageID = (case in_messageID input of Some m \<Rightarrow> m | None \<Rightarrow> []),
                    part_type = ''text'',
                    part_text = contextText,
                    part_synthetic = True,
                    part_source = ''momo-memory''\<rparr>
                 in (injected, syntheticPart # parts))))"

text \<open>
  One invocation of the hook as the host makes it: the client and tags of the plugin
  instance, the input and the parts list supplied. A run threads the set through the
  invocations in order; \<open>totalAdded\<close> counts the parts that the invocations for one
  session added to the lists supplied to them.
\<close>

record hook_call =
  call_momo :: "MomoClient option"
  call_tags :: tags
  call_input :: hook_input
  call_parts :: "part list"

definition callSession :: "hook_call \<Rightarrow> string" where
  "callSession c = in_sessionID (call_input c)"

definition invoke :: "hook_call \<Rightarrow> string set \<Rightarrow> string set \<times> part list" where
  "invoke c injectedSessions =
     chatMessageHook (call_momo c) (call_tags c) (call_input c) (call_parts c) injectedSessions"

definition partsAdded :: "hook_call \<Rightarrow> string set \<Rightarrow> nat" where
  "partsAdded c injectedSessions = length (snd (invoke c injectedSessions)) - length (call_parts c)"

fun totalAdded :: "string \<Rightarrow> hook_call list \<Rightarrow> string set \<Rightarrow> nat" where
  "totalAdded sid [] injectedSessions = 0"
| "totalAdded sid (c # cs) injectedSessions =
     (if callSession c = sid then partsAdded c injectedSessions else 0) +
     totalAdded sid cs (fst (invoke c injectedSessions))"

definition eventHook ::
  "MomoClient option \<Rightarrow> tags \<Rightarrow> event \<Rightarrow> int \<Rightarrow> sessionStates
     \<Rightarrow> sessionStates \<times> ingest_request list" where
  "eventHook momo tgs ev now states =
     (case momo of
        None \<Rightarrow> (states, [])
      | Some client \<Rightarrow> handleCompactionEvent ev client (project tgs) now states)"

section \<open>Waiting for an ingestion (index.ts)\<close>

text \<open>
  \<open>waitForIngestion\<close> reads the clock once (\<open>start\<close>) and then before every poll. The
  world it runs in is a script: for each turn of the loop, the clock reading of the loop
  test and the outcome of the status query made in that turn. A script that ends before
  the loop has returned gives \<open>None\<close>. Beside its result the model returns the arguments
  of its calls of \<open>delay\<close>, in order.
\<close>

datatype ingestion_status = Pending | Processing | Completed | Failed

record status_response =
  st_status :: ingestion_status
  st_title :: "string option"
  st_documentId :: string

record wait_result =
  res_status :: ingestion_status
  res_title :: "string option"
  res_documentId :: "string option"

record poll_turn =
  turn_now :: int
  turn_reply :: "status_response settled"

datatype wait_error = StatusQueryRejected

definition terminal :: "ingestion_status \<Rightarrow> bool" where
  "terminal s = (s = Completed \<or> s = Failed)"

fun waitLoop ::
  "int \<Rightarrow> int \<Rightarrow> int \<Rightarrow> poll_turn list \<Rightarrow> int list
     \<Rightarrow> ((wait_error + wait_result) \<times> int list) option" where
  "waitLoop start timeoutMs pollIntervalMs [] delays = None"
| "waitLoop start timeoutMs pollIntervalMs (t # script) delays =
     (if turn_now t - start < timeoutMs then
        (case turn_reply t of
           Rejected \<Rightarrow> Some (Inl StatusQueryRejected, delays)
         | Resolved status \<Rightarrow>
             if terminal (st_status status)
             then Some (Inr \<lparr>res_status = st_status status, res_title = st_title status,
                              res_documentId = Some (st_documentId status)\<rparr>, delays)
             else waitLoop start timeoutMs pollIntervalMs script (delays @ [pollIntervalMs]))
      else Some (Inr \<lparr>res_status = Processing, res_title = None, res_documentId = None\<rparr>,
                 delays))"

definition waitForIngestion ::
  "int \<Rightarrow> int \<Rightarrow> int \<Rightarrow> poll_turn list \<Rightarrow> ((wait_error + wait_result) \<times> int list) option" where
  "waitForIngestion start timeoutMs pollIntervalMs script =
     waitLoop start timeoutMs pollIntervalMs script []"

text \<open>
  A script in which every call of \<open>delay\<close> lets at least the requested interval pass
  before the next loop test.
\<close>

fun clockAdvances :: "int \<Rightarrow> poll_turn list \<Rightarrow> bool" where
  "clockAdvances pollIntervalMs [] = True"
| "clockAdvances pollIntervalMs [t] = True"
| "clockAdvances pollIntervalMs (t # u # script) =
     (turn_now t + pollIntervalMs \<le> turn_now u \<and> clockAdvances pollIntervalMs (u # script))"

section \<open>Runs of the compaction handler\<close>

text \<open>The map after a sequence of events, and the requests sent while handling it.\<close>

definition statesAfter ::
  "(event \<times> int) list \<Rightarrow> MomoClient \<Rightarrow> string \<Rightarrow> sessionStates \<Rightarrow> sessionStates" where
  "statesAfter evs momo containerTag states = fst (handleEvents evs momo containerTag states)"

definition requestsSent ::
  "(event \<times> int) list \<Rightarrow> MomoClient \<Rightarrow> string \<Rightarrow> sessionStates \<Rightarrow> ingest_request list" where
  "requestsSent evs momo containerTag states = snd (handleEvents evs momo containerTag states)"

section \<open>Sources of a configuration, for stating its resolution\<close>

definition globalConfigPath :: "host \<Rightarrow> string" where
  "globalConfigPath h = path_join h [getConfigDir h, ''momo.jsonc'']"

definition dotConfigPath :: "host \<Rightarrow> string \<Rightarrow> string" where
  "dotConfigPath h directory = path_join h [directory, ''.momo.jsonc'']"

definition plainConfigPath :: "host \<Rightarrow> string \<Rightarrow> string" where
  "plainConfigPath h directory = path_join h [directory, ''momo.jsonc'']"

text \<open>
  A file that is absent, cannot be read, or holds content that does not parse after the
  comments and trailing commas are stripped.
\<close>

definition unusableFile :: "host \<Rightarrow> string \<Rightarrow> bool" where
  "unusableFile h path =
     (case files h path of
        Absent \<Rightarrow> True
      | Unreadable \<Rightarrow> True
      | Content raw \<Rightarrow>
          (case JSON_parse h (stripJsoncComments h raw) of Inl e \<Rightarrow> True | Inr parsed \<Rightarrow> False))"

text \<open>
  A host for trying the configuration on concrete inputs. Its parser knows three
  contents: \<open>G\<close> and \<open>P\<close> stand for an object each, \<open>null\<close> is the JSON literal; anything
  else does not parse.
\<close>

definition demoParse :: "string \<Rightarrow> js_error + json" where
  "demoParse s =
     (if s = ''G'' then
        Inr (JObject [(''apiKey'', JString ''global-key''),
                      (''baseUrl'', JString ''http://global:3000''),
                      (''containerTagUser'', JString ''global-user'')])
      else if s = ''P'' then
        Inr (JObject [(''apiKey'', JString ''project-key''),
                      (''containerTagProject'', JString ''project-tag'')])
      else if s = ''null'' then Inr JNull
      else Inl SyntaxError)"

definition demoHost :: "(string \<rightharpoonup> string) \<Rightarrow> (string \<Rightarrow> file_state) \<Rightarrow> host" where
  "demoHost environment fs =
     \<lparr>process_env = environment, homedir = ''/home/alice'', path_join = joinWith ''/'',
      files = fs, stripJsoncComments = (\<lambda>raw. raw), JSON_parse = demoParse\<rparr>"

definition demoFiles :: "string \<Rightarrow> string \<Rightarrow> string \<Rightarrow> file_state" where
  "demoFiles globalRaw projectRaw path =
     (if path = ''/cfg/opencode/momo.jsonc'' then Content globalRaw
      else if path = ''/work/app/.momo.jsonc'' then Content projectRaw
      else Absent)"

definition projectFileOnly :: "string \<Rightarrow> string \<Rightarrow> file_state" where
  "projectFileOnly projectRaw path =
     (if path = ''/work/app/.momo.jsonc'' then Content projectRaw else Absent)"

definition demoEnv :: "string \<rightharpoonup> string" where
  "demoEnv = [''XDG_CONFIG_HOME'' \<mapsto> ''/cfg'', ''MOMO_API_KEY'' \<mapsto> ''env-key'']"

definition bareEnv :: "string \<rightharpoonup> string" where
  "bareEnv = [''XDG_CONFIG_HOME'' \<mapsto> ''/cfg'']"

definition tagEnv :: "string \<rightharpoonup> string" where
  "tagEnv = [''XDG_CONFIG_HOME'' \<mapsto> ''/cfg'', ''MOMO_CONTAINER_TAG_USER'' \<mapsto> ''env-user'']"

definition demoPlatform :: platform where
  "demoPlatform =
     \<lparr>username = ''alice'',
      basename = (\<lambda>p. rev (takeWhile (\<lambda>c. c \<noteq> CHR ''/'') (rev p)))\<rparr>"

definition demoClient :: MomoClient where
  "demoClient =
     \<lparr>conversations_ingest = (\<lambda>r. Rejected), profile_compute = (\<lambda>r. Rejected),
      search_search = (\<lambda>r. Rejected)\<rparr>"

section \<open>Marker positions, for stating what the privacy filter removes\<close>

text \<open>
  \<open>beginsNowhere m a rest\<close>: in the text \<open>a @ rest\<close>, the marker \<open>m\<close> begins at no
  position of \<open>a\<close>.
\<close>

fun beginsNowhere :: "string \<Rightarrow> string \<Rightarrow> string \<Rightarrow> bool" where
  "beginsNowhere m [] rest = True"
| "beginsNowhere m (c # cs) rest = (\<not> prefix m ((c # cs) @ rest) \<and> beginsNowhere m cs rest)"

section \<open>The sections of a context block, for stating the formatter's result\<close>

text \<open>
  The four sections in their fixed order, each with the condition under which it has
  content: a summary that is present and not empty, a trait list that is present and not
  empty, a non-empty list of user memories, a non-empty list of project memories.
\<close>

definition summaryOf :: "ProfileData option \<Rightarrow> string" where
  "summaryOf profile = (case Option.bind profile summary of Some s \<Rightarrow> s | None \<Rightarrow> [])"

definition traitsOf :: "ProfileData option \<Rightarrow> string list" where
  "traitsOf profile = (case Option.bind profile traits of Some ts \<Rightarrow> ts | None \<Rightarrow> [])"

definition candidateSections ::
  "ProfileData option \<Rightarrow> MemoryItem list \<Rightarrow> MemoryItem list \<Rightarrow> (bool \<times> string) list" where
  "candidateSections profile userMemories projectMemories =
     [(summaryOf profile \<noteq> [], ''## User Profile'' @ newline @ summaryOf profile),
      (traitsOf profile \<noteq> [],
       ''## Known Preferences'' @ newline @ joinWith newline (map traitLine (traitsOf profile))),
      (userMemories \<noteq> [],
       ''## Recent User Context'' @ newline @ joinWith newline (map memoryLine userMemories)),
      (projectMemories \<noteq> [],
       ''## Project Knowledge'' @ newline @ joinWith newline (map memoryLine projectMemories))]"

definition presentSections ::
  "ProfileData option \<Rightarrow> MemoryItem list \<Rightarrow> MemoryItem list \<Rightarrow> string list" where
  "presentSections profile userMemories projectMemories =
     map snd (filter fst (candidateSections profile userMemories projectMemories))"

definition typeLabelOf :: "MemoryItem \<Rightarrow> string" where
  "typeLabelOf m =
     (case memoryType m of
        None \<Rightarrow> []
      | Some ty \<Rightarrow> if ty = [] then [] else '' ['' @ ty @ '']'')"

section \<open>A backend and calls for trying the injection hook\<close>

definition profileClient :: MomoClient where
  "profileClient =
     \<lparr>conversations_ingest = (\<lambda>r. Resolved ()),
      profile_compute = (\<lambda>r. Resolved \<lparr>narrative = Some ''N'', staticFacts = []\<rparr>),
      search_search = (\<lambda>r. Rejected)\<rparr>"

definition demoCall :: "string \<Rightarrow> string \<Rightarrow> hook_call" where
  "demoCall sid mid =
     \<lparr>call_momo = Some profileClient,
      call_tags = \<lparr>user = ''opencode-user-a20fb27'', project = ''ocp-foo-f3770f4a''\<rparr>,
      call_input = \<lparr>in_sessionID = sid, in_messageID = Some mid\<rparr>,
      call_parts = []\<rparr>"

section \<open>Turns of the polling loop, for stating what the wait returns\<close>

definition withinBudget :: "int \<Rightarrow> int \<Rightarrow> poll_turn \<Rightarrow> bool" where
  "withinBudget start timeoutMs t = (turn_now t - start < timeoutMs)"

definition repliesPending :: "poll_turn \<Rightarrow> bool" where
  "repliesPending t =
     (case turn_reply t of
        Resolved status \<Rightarrow> st_status status = Pending \<or> st_status status = Processing
      | Rejected \<Rightarrow> False)"

definition reportedResult :: "status_response \<Rightarrow> wait_result" where
  "reportedResult status =
     \<lparr>res_status = st_status status, res_title = st_title status,
      res_documentId = Some (st_documentId status)\<rparr>"

definition stillProcessing :: wait_result where
  "stillProcessing = \<lparr>res_status = Processing, res_title = None, res_documentId = None\<rparr>"

definition pollTurn :: "int \<Rightarrow> ingestion_status \<Rightarrow> poll_turn" where
  "pollTurn now s =
     \<lparr>turn_now = now,
      turn_reply = Resolved \<lparr>st_status = s, st_title = None, st_documentId = ''doc-1''\<rparr>\<rparr>"

section \<open>Properties of the compaction tracker\<close>

lemma compactionPair_fresh:
  assumes "states sid = None" and "30000 \<le> now"
  shows "handleEvents (compactionPair sid now) momo tag states =
     (states(sid \<mapsto> \<lparr>lastCompaction = now, inProgress = False\<rparr>), [marker_request sid tag])"
  using assms
  by (cases "conversations_ingest momo (marker_request sid tag)")
     (simp_all add: compactionPair_def CompactionStarted_def SummaryReady_def getState_def
        truthy_bool_def truthy_str_def COMPACTION_COOLDOWN_MS_def Let_def)

lemma compactionPair_tracked:
  assumes "states sid = Some st"
  shows "handleEvents (compactionPair sid now) momo tag states =
     (if now - lastCompaction st < 30000
      then (states(sid \<mapsto> st\<lparr>inProgress := False\<rparr>), [])
      else (states(sid \<mapsto> st\<lparr>inProgress := False, lastCompaction := now\<rparr>),
            [marker_request sid tag]))"
  using assms
  by (cases "conversations_ingest momo (marker_request sid tag)")
     (simp_all add: compactionPair_def CompactionStarted_def SummaryReady_def getState_def
        truthy_bool_def truthy_str_def COMPACTION_COOLDOWN_MS_def Let_def)

lemma handleEvents_Cons_snd:
  "snd (handleEvents ((ev, now) # rest) momo tag states) =
     snd (handleCompactionEvent ev momo tag now states) @
     snd (handleEvents rest momo tag (fst (handleCompactionEvent ev momo tag now states)))"
  by (simp add: split_def Let_def)

lemma handleEvents_append:
  "handleEvents (xs @ ys) momo tag states =
     (fst (handleEvents ys momo tag (fst (handleEvents xs momo tag states))),
      snd (handleEvents xs momo tag states) @
      snd (handleEvents ys momo tag (fst (handleEvents xs momo tag states))))"
proof (induction xs arbitrary: states)
  case Nil
  show ?case by simp
next
  case (Cons e xs)
  obtain ev now where e: "e = (ev, now)" by (cases e)
  show ?case
    by (simp add: e split_def Let_def Cons.IH)
qed

lemma statesAfter_append:
  "statesAfter (xs @ ys) momo tag states = statesAfter ys momo tag (statesAfter xs momo tag states)"
  by (simp add: statesAfter_def handleEvents_append)

lemma sessionEnded_then_pair:
  assumes "30000 \<le> now"
  shows "snd (handleEvents ((SessionEnded sid, now') # compactionPair sid now) momo tag states) =
     [marker_request sid tag]"
proof -
  have gone: "(states(sid := None)) sid = None" by simp
  show ?thesis
    unfolding handleEvents_Cons_snd
    using compactionPair_fresh[of "states(sid := None)" sid now momo tag] gone assms
    by (simp add: SessionEnded_def)
qed

text \<open>
  C1, as the code has it. A fresh entry starts with \<open>lastCompaction = 0\<close>, and the
  cooldown test is \<open>now - lastCompaction < 30000\<close>: a first summary whose clock reading is
  below 30000 is inside the cooldown of the entry's initial value and is suppressed. With
  the scenario's own reading 0 the first pair therefore sends nothing.
\<close>

theorem compaction_scenario_at_zero_counterexample:
  "requestsSent (compactionPair ''s1'' 0)
         \<lparr>conversations_ingest = (\<lambda>r. Resolved ()), profile_compute = (\<lambda>r. Rejected),
          search_search = (\<lambda>r. Rejected)\<rparr>
         ''ocp-demo-0badc0de'' Map.empty = []"
  by (simp add: requestsSent_def compactionPair_def CompactionStarted_def SummaryReady_def
        getState_def truthy_bool_def truthy_str_def COMPACTION_COOLDOWN_MS_def Let_def)

text \<open>
  C1 (amended): the scenario with clock readings as \<open>Date.now()\<close> gives them, at least one
  cooldown after the epoch. Starting from a map with no entry for the session, the pair
  CompactionStarted, SummaryReady at reading \<open>t\<close> sends exactly one request, the marker
  request carrying the container tag the event hook passes (the project tag) and the type
  episode; the pair at \<open>t + 10000\<close> sends none; the pair at \<open>t + 31000\<close> sends exactly one
  more; and after SessionEnded a further pair, at any reading \<open>t'\<close> from 30000 on (also one
  inside the cooldown of the last ingestion), sends one again. The outcome of the ingestion
  call plays no part.
\<close>

theorem compaction_cooldown_scenario:
  assumes "states sid = None" and "30000 \<le> t" and "30000 \<le> t'"
  shows "requestsSent (compactionPair sid t) momo tag states = [marker_request sid tag]
       \<and> requestsSent (compactionPair sid (t + 10000)) momo tag
            (statesAfter (compactionPair sid t) momo tag states) = []
       \<and> requestsSent (compactionPair sid (t + 31000)) momo tag
            (statesAfter (compactionPair sid t @ compactionPair sid (t + 10000)) momo tag states)
            = [marker_request sid tag]
       \<and> requestsSent ((SessionEnded sid, t') # compactionPair sid t') momo tag
            (statesAfter (compactionPair sid t @ compactionPair sid (t + 10000) @
                          compactionPair sid (t + 31000)) momo tag states)
            = [marker_request sid tag]
       \<and> req_containerTag (marker_request sid tag) = tag
       \<and> req_memoryType (marker_request sid tag) = ''episode''
       \<and> req_sessionId (marker_request sid tag) = sid
       \<and> snd (eventHook (Some momo) tgs (SummaryReady sid) t
               (fst (eventHook (Some momo) tgs (CompactionStarted sid) t states)))
            = [marker_request sid (project tgs)]"
proof -
  let ?st = "\<lparr>lastCompaction = t, inProgress = False\<rparr>"
  have r1: "handleEvents (compactionPair sid t) momo tag states =
      (states(sid \<mapsto> ?st), [marker_request sid tag])"
    using compactionPair_fresh[of states sid t momo tag] assms(1,2) by simp
  have s1: "statesAfter (compactionPair sid t) momo tag states sid = Some ?st"
    by (simp add: statesAfter_def r1)
  have r2: "handleEvents (compactionPair sid (t + 10000)) momo tag
              (statesAfter (compactionPair sid t) momo tag states) =
      ((statesAfter (compactionPair sid t) momo tag states)(sid \<mapsto> ?st), [])"
    by (simp add: compactionPair_tracked[where st = ?st] s1)
  have s2: "statesAfter (compactionPair sid t @ compactionPair sid (t + 10000)) momo tag states sid
      = Some ?st"
    using r2 by (simp add: statesAfter_def handleEvents_append)
  have r3: "requestsSent (compactionPair sid (t + 31000)) momo tag
            (statesAfter (compactionPair sid t @ compactionPair sid (t + 10000)) momo tag states)
            = [marker_request sid tag]"
    by (simp add: requestsSent_def compactionPair_tracked[where st = ?st] s2)
  have r4: "requestsSent ((SessionEnded sid, t') # compactionPair sid t') momo tag
            (statesAfter (compactionPair sid t @ compactionPair sid (t + 10000) @
                          compactionPair sid (t + 31000)) momo tag states)
            = [marker_request sid tag]"
    unfolding requestsSent_def using assms(3) by (rule sessionEnded_then_pair)
  have hook: "snd (eventHook (Some momo) tgs (SummaryReady sid) t
               (fst (eventHook (Some momo) tgs (CompactionStarted sid) t states)))
            = [marker_request sid (project tgs)]"
  proof -
    have started: "snd (handleCompactionEvent (CompactionStarted sid) momo (project tgs) t states) = []"
      by (simp add: CompactionStarted_def split_def Let_def)
    show ?thesis
      using compactionPair_fresh[of states sid t momo "project tgs"] assms(1,2) started
      by (simp add: eventHook_def compactionPair_def split_def Let_def)
  qed
  show ?thesis
    using r1 r2 r3 r4 hook by (simp add: marker_request_def requestsSent_def)
qed

theorem compaction_cooldown_scenario_witness:
  "(Map.empty :: sessionStates) ''s1'' = None \<and> (30000::int) \<le> 1700000000000
   \<and> (30000::int) \<le> 1700000031000
   \<and> requestsSent (compactionPair ''s1'' 1700000000000)
         \<lparr>conversations_ingest = (\<lambda>r. Rejected), profile_compute = (\<lambda>r. Rejected),
          search_search = (\<lambda>r. Rejected)\<rparr> ''ocp-demo-0badc0de'' Map.empty
       = [marker_request ''s1'' ''ocp-demo-0badc0de'']
   \<and> requestsSent (compactionPair ''s1'' 1700000010000)
         \<lparr>conversations_ingest = (\<lambda>r. Rejected), profile_compute = (\<lambda>r. Rejected),
          search_search = (\<lambda>r. Rejected)\<rparr> ''ocp-demo-0badc0de''
         (statesAfter (compactionPair ''s1'' 1700000000000)
         \<lparr>conversations_ingest = (\<lambda>r. Rejected), profile_compute = (\<lambda>r. Rejected),
          search_search = (\<lambda>r. Rejected)\<rparr> ''ocp-demo-0badc0de'' Map.empty)
       = []
   \<and> requestsSent ((SessionEnded ''s1'', 1700000031000) # compactionPair ''s1'' 1700000031000)
         \<lparr>conversations_ingest = (\<lambda>r. Rejected), profile_compute = (\<lambda>r. Rejected),
          search_search = (\<lambda>r. Rejected)\<rparr> ''ocp-demo-0badc0de''
         (statesAfter (compactionPair ''s1'' 1700000000000 @ compactionPair ''s1'' 1700000010000 @
                          compactionPair ''s1'' 1700000031000)
         \<lparr>conversations_ingest = (\<lambda>r. Rejected), profile_compute = (\<lambda>r. Rejected),
          search_search = (\<lambda>r. Rejected)\<rparr> ''ocp-demo-0badc0de'' Map.empty)
       = [marker_request ''s1'' ''ocp-demo-0badc0de'']"
  using compaction_cooldown_scenario[of Map.empty "''s1''" 1700000000000 1700000031000
      "\<lparr>conversations_ingest = (\<lambda>r. Rejected), profile_compute = (\<lambda>r. Rejected),
          search_search = (\<lambda>r. Rejected)\<rparr>" "''ocp-demo-0badc0de''"
      "\<lparr>user = ''u'', project = ''ocp-demo-0badc0de''\<rparr>"]
  by simp
lemma handle_step_mono:
  assumes "handleCompactionEvent ev momo tag now states = (states', reqs)"
      and "states sid = Some st" and "states' sid = Some st'"
  shows "lastCompaction st \<le> lastCompaction st'"
proof (cases ev)
  case (SessionCompacted x)
  with assms show ?thesis
    by (auto simp: getState_def Let_def split: option.splits if_splits)
next
  case (MessageUpdated info)
  with assms show ?thesis
    by (cases "conversations_ingest momo (marker_request (info_sessionID info) tag)")
       (auto simp: getState_def Let_def COMPACTION_COOLDOWN_MS_def
            split: option.splits if_splits)
next
  case (SessionDeleted x)
  with assms show ?thesis by (auto split: if_splits)
next
  case (OtherEvent x)
  with assms show ?thesis by simp
qed

lemma handle_step_keeps:
  assumes "states sid = Some st" and "ev \<noteq> SessionDeleted sid"
  shows "\<exists>st'. fst (handleCompactionEvent ev momo tag now states) sid = Some st'"
proof (cases ev)
  case (SessionCompacted x)
  with assms show ?thesis
    by (auto simp: getState_def Let_def split: option.splits if_splits)
next
  case (MessageUpdated info)
  with assms show ?thesis
    by (cases "conversations_ingest momo (marker_request (info_sessionID info) tag)")
       (auto simp: getState_def Let_def COMPACTION_COOLDOWN_MS_def
            split: option.splits if_splits)
next
  case (SessionDeleted x)
  with assms show ?thesis by (auto split: if_splits)
next
  case (OtherEvent x)
  with assms show ?thesis by simp
qed

lemma run_mono:
  assumes "states sid = Some st"
      and "\<forall>e \<in> set evs. fst e \<noteq> SessionDeleted sid"
  shows "\<exists>st'. statesAfter evs momo tag states sid = Some st'
            \<and> lastCompaction st \<le> lastCompaction st'"
  using assms
proof (induction evs arbitrary: states st)
  case Nil
  then show ?case by (simp add: statesAfter_def)
next
  case (Cons e evs)
  obtain ev now where e: "e = (ev, now)" by (cases e)
  obtain states1 reqs1 where h: "handleCompactionEvent ev momo tag now states = (states1, reqs1)"
    by (cases "handleCompactionEvent ev momo tag now states")
  from Cons.prems e have ne: "ev \<noteq> SessionDeleted sid" by simp
  from handle_step_keeps[of states sid st ev momo tag now] Cons.prems(1) ne h
  obtain st1 where s1: "states1 sid = Some st1" by auto
  from handle_step_mono[of ev momo tag now states states1 reqs1 sid st st1] h Cons.prems(1) s1
  have le1: "lastCompaction st \<le> lastCompaction st1" by simp
  from Cons.prems have rest: "\<forall>e \<in> set evs. fst e \<noteq> SessionDeleted sid" by simp
  from Cons.IH[of states1 st1] s1 rest obtain st' where
    "statesAfter evs momo tag states1 sid = Some st'" "lastCompaction st1 \<le> lastCompaction st'"
    by blast
  with le1 e h show ?case
    by (auto simp: statesAfter_def split_def Let_def)
qed

text \<open>
  C5: take any sequence of events with any clock readings (non-decreasing or not), run
  from any map, and look at a session's entry at two points of the run between which the
  session is not deleted. The entry is still there at the later point and its
  \<open>lastCompaction\<close> is at least what it was at the earlier one. A single transition is the
  case of a one-event stretch: the handler assigns \<open>lastCompaction := now\<close> only when
  \<open>now - lastCompaction\<close> is at least the cooldown.
\<close>

theorem lastCompaction_monotone:
  assumes "statesAfter before momo tag states sid = Some st"
      and "\<forall>e \<in> set stretch. fst e \<noteq> SessionDeleted sid"
  shows "\<exists>st'. statesAfter (before @ stretch) momo tag states sid = Some st'
            \<and> lastCompaction st \<le> lastCompaction st'"
  using run_mono[of "statesAfter before momo tag states" sid st stretch momo tag] assms
  by (simp add: statesAfter_append)

theorem lastCompaction_monotone_witness:
  "\<exists>st'. statesAfter (compactionPair ''s1'' 1700000000000 @ compactionPair ''s1'' 1700000031000)
        \<lparr>conversations_ingest = (\<lambda>r. Rejected), profile_compute = (\<lambda>r. Rejected),
          search_search = (\<lambda>r. Rejected)\<rparr> ''ocp-demo-0badc0de'' Map.empty ''s1'' = Some st'
      \<and> 1700000000000 \<le> lastCompaction st'"
  using lastCompaction_monotone[of "compactionPair ''s1'' 1700000000000"
        "\<lparr>conversations_ingest = (\<lambda>r. Rejected), profile_compute = (\<lambda>r. Rejected),
          search_search = (\<lambda>r. Rejected)\<rparr>" "''ocp-demo-0badc0de''" Map.empty "''s1''"
        "\<lparr>lastCompaction = 1700000000000, inProgress = False\<rparr>"
        "compactionPair ''s1'' 1700000031000"]
  by (simp add: statesAfter_def compactionPair_def CompactionStarted_def SummaryReady_def
        getState_def truthy_bool_def truthy_str_def COMPACTION_COOLDOWN_MS_def Let_def)

section \<open>Properties of the configuration\<close>

lemma coalesce_values:
  "coalesce (Inr a) (Inr b) = Inr (if isSet a then a else b)"
  by (simp add: coalesce_def isSet_def)

lemma getProp_fieldOf: "config \<noteq> JNull \<Longrightarrow> getProp config key = Inr (fieldOf config key)"
  by (cases config) (simp_all add: getProp_def fieldOf_def)

lemma getProp_null: "getProp JNull key = Inl TypeError"
  by (simp add: getProp_def)

lemma present_chain3:
  "present (if isSet (if isSet a then a else b) then (if isSet a then a else b) else c)
     = firstSet [a, b, c]"
  by (simp add: present_def firstSet_def isSet_def)

lemma present_chain2: "present (if isSet a then a else b) = firstSet [a, b]"
  by (simp add: present_def firstSet_def isSet_def)

lemma isSet_default: "isSet (Some (JString d))"
  by (simp add: isSet_def isNullish_def)

lemma default_chain3:
  "(if isSet (if isSet (if isSet a then a else b) then (if isSet a then a else b) else c)
    then (if isSet (if isSet a then a else b) then (if isSet a then a else b) else c)
    else Some (JString d))
     = withDefault d (firstSet [a, b, c])"
  by (auto simp: firstSet_def withDefault_def isSet_def isNullish_def split: option.splits)

lemma default_chain2:
  "(if isSet (if isSet a then a else b) then (if isSet a then a else b) else Some (JString d))
     = withDefault d (firstSet [a, b])"
  by (auto simp: firstSet_def withDefault_def isSet_def isNullish_def split: option.splits)

lemma unusable_read_fails: "unusableFile h path \<longleftrightarrow> (\<exists>e. readAndParse h path = Inl e)"
  by (auto simp: unusableFile_def readAndParse_def readFileSync_def
        split: file_state.splits sum.splits)

text \<open>
  The reader absorbs every error of its \<open>try\<close> body: for a file that is absent,
  unreadable, or whose content does not parse, it returns the empty object.
\<close>

lemma unusable_empty: "unusableFile h path \<Longrightarrow> readJsoncConfigFile h path = emptyObject"
  by (auto simp: unusable_read_fails readJsoncConfigFile_def)

text \<open>Content that parses is returned as it is, the literal \<open>null\<close> included.\<close>

lemma parsed_returned:
  "readAndParse h path = Inr parsed \<Longrightarrow> readJsoncConfigFile h path = parsed"
  by (simp add: readJsoncConfigFile_def)

lemma loadConfig_values:
  assumes "readProjectConfigFile h directory \<noteq> JNull" and "readConfigFile h \<noteq> JNull"
  shows "loadConfig h directory =
     Inr \<lparr>apiKey =
            (let a = envVar h ''MOMO_API_KEY'';
                 b = fieldOf (readProjectConfigFile h directory) ''apiKey'';
                 c = fieldOf (readConfigFile h) ''apiKey''
             in if isSet (if isSet a then a else b) then (if isSet a then a else b) else c),
          baseUrl =
            (let a = envVar h ''MOMO_BASE_URL'';
                 b = fieldOf (readProjectConfigFile h directory) ''baseUrl'';
                 c = fieldOf (readConfigFile h) ''baseUrl''
             in if isSet (if isSet (if isSet a then a else b) then (if isSet a then a else b) else c)
                then (if isSet (if isSet a then a else b) then (if isSet a then a else b) else c)
                else Some (JString DEFAULT_BASE_URL)),
          containerTagUser =
            (let a = envVar h ''MOMO_CONTAINER_TAG_USER'';
                 b = fieldOf (readProjectConfigFile h directory) ''containerTagUser'';
                 c = fieldOf (readConfigFile h) ''containerTagUser''
             in if isSet (if isSet a then a else b) then (if isSet a then a else b) else c),
          containerTagProject =
            (let a = envVar h ''MOMO_CONTAINER_TAG_PROJECT'';
                 b = fieldOf (readProjectConfigFile h directory) ''containerTagProject'';
                 c = fieldOf (readConfigFile h) ''containerTagProject''
             in if isSet (if isSet a then a else b) then (if isSet a then a else b) else c)\<rparr>"
  unfolding loadConfig_def Let_def getProp_fieldOf[OF assms(1)] getProp_fieldOf[OF assms(2)]
    coalesce_values thenE_def
  by simp

lemma loadConfig_single_values:
  assumes "readConfigFile h \<noteq> JNull"
  shows "loadConfig_single h =
     Inr \<lparr>apiKey =
            (let a = envVar h ''MOMO_API_KEY''; c = fieldOf (readConfigFile h) ''apiKey''
             in if isSet a then a else c),
          baseUrl =
            (let a = envVar h ''MOMO_BASE_URL''; c = fieldOf (readConfigFile h) ''baseUrl''
             in if isSet (if isSet a then a else c) then (if isSet a then a else c)
                else Some (JString DEFAULT_BASE_URL)),
          containerTagUser = fieldOf (readConfigFile h) ''containerTagUser'',
          containerTagProject = fieldOf (readConfigFile h) ''containerTagProject''\<rparr>"
  unfolding loadConfig_single_def Let_def getProp_fieldOf[OF assms] coalesce_values thenE_def
  by simp

lemma demo_globalConfigPath:
  "globalConfigPath (demoHost demoEnv fs) = ''/cfg/opencode/momo.jsonc''"
  "globalConfigPath (demoHost bareEnv fs) = ''/cfg/opencode/momo.jsonc''"
  "globalConfigPath (demoHost tagEnv fs) = ''/cfg/opencode/momo.jsonc''"
  by (simp_all add: globalConfigPath_def getConfigDir_def demoHost_def demoEnv_def bareEnv_def
        tagEnv_def truthy_str_def)

lemma demo_readConfigFile:
  "readConfigFile (demoHost env fs) = readJsoncConfigFile (demoHost env fs) (globalConfigPath (demoHost env fs))"
  by (simp add: readConfigFile_def globalConfigPath_def)

lemma demo_read_global:
  "readJsoncConfigFile (demoHost env (demoFiles ''G'' p)) ''/cfg/opencode/momo.jsonc'' =
     JObject [(''apiKey'', JString ''global-key''),
              (''baseUrl'', JString ''http://global:3000''),
              (''containerTagUser'', JString ''global-user'')]"
  "readJsoncConfigFile (demoHost env (demoFiles ''null'' p)) ''/cfg/opencode/momo.jsonc'' = JNull"
  "readJsoncConfigFile (demoHost env (projectFileOnly p)) ''/cfg/opencode/momo.jsonc'' = emptyObject"
  by (simp_all add: readJsoncConfigFile_def readAndParse_def readFileSync_def demoHost_def
        demoFiles_def projectFileOnly_def demoParse_def)

lemma demo_read_project:
  "readProjectConfigFile (demoHost env (demoFiles g ''P'')) (Some ''/work/app'') =
     JObject [(''apiKey'', JString ''project-key''),
              (''containerTagProject'', JString ''project-tag'')]"
  "readProjectConfigFile (demoHost env (projectFileOnly ''null'')) (Some ''/work/app'') = JNull"
  by (simp_all add: readProjectConfigFile_def existsSync_def readJsoncConfigFile_def
        readAndParse_def readFileSync_def demoHost_def demoFiles_def projectFileOnly_def
        demoParse_def truthy_str_def Let_def)

lemma demo_env:
  "envVar (demoHost demoEnv fs) ''MOMO_API_KEY'' = Some (JString ''env-key'')"
  "envVar (demoHost demoEnv fs) ''MOMO_BASE_URL'' = None"
  "envVar (demoHost demoEnv fs) ''MOMO_CONTAINER_TAG_USER'' = None"
  "envVar (demoHost demoEnv fs) ''MOMO_CONTAINER_TAG_PROJECT'' = None"
  "envVar (demoHost bareEnv fs) ''MOMO_API_KEY'' = None"
  "envVar (demoHost tagEnv fs) ''MOMO_API_KEY'' = None"
  "envVar (demoHost tagEnv fs) ''MOMO_BASE_URL'' = None"
  by (simp_all add: envVar_def demoHost_def demoEnv_def bareEnv_def tagEnv_def)

text \<open>
  C2, as the code has it, on two inputs. First, a global file whose content is the JSON
  literal \<open>null\<close>: the reader returns \<open>null\<close>, and \<open>loadConfig\<close>, which has the API key from
  the environment, raises a TypeError when it reads \<open>globalConfig.baseUrl\<close>; there is no
  result whose fields could follow the precedence. Second, the single-file \<open>loadConfig\<close>
  of src/config.ts with the user tag set in the environment and in the global file, and
  the project tag set in the project file: the user tag of the result is the file's, not
  the environment's, and the project tag is absent.
\<close>

theorem loadConfig_precedence_counterexample:
  "loadConfig (demoHost demoEnv (demoFiles ''null'' ''P'')) (Some ''/work/app'') = Inl TypeError
   \<and> process_env (demoHost tagEnv (demoFiles ''G'' ''P'')) ''MOMO_CONTAINER_TAG_USER''
       = Some ''env-user''
   \<and> loadConfig_single (demoHost tagEnv (demoFiles ''G'' ''P'')) =
       Inr \<lparr>apiKey = Some (JString ''global-key''),
            baseUrl = Some (JString ''http://global:3000''),
            containerTagUser = Some (JString ''global-user''),
            containerTagProject = None\<rparr>"
proof (intro conjI)
  show "loadConfig (demoHost demoEnv (demoFiles ''null'' ''P'')) (Some ''/work/app'') = Inl TypeError"
    unfolding loadConfig_def Let_def demo_readConfigFile demo_globalConfigPath demo_read_global
      demo_read_project demo_env
    by (simp add: getProp_def coalesce_def thenE_def isNullish_def)
  show "process_env (demoHost tagEnv (demoFiles ''G'' ''P'')) ''MOMO_CONTAINER_TAG_USER''
       = Some ''env-user''"
    by (simp add: demoHost_def tagEnv_def)
  show "loadConfig_single (demoHost tagEnv (demoFiles ''G'' ''P'')) =
       Inr \<lparr>apiKey = Some (JString ''global-key''),
            baseUrl = Some (JString ''http://global:3000''),
            containerTagUser = Some (JString ''global-user''),
            containerTagProject = None\<rparr>"
    unfolding loadConfig_single_def Let_def demo_readConfigFile demo_globalConfigPath
      demo_read_global demo_env
    by (simp add: getProp_def coalesce_def thenE_def isNullish_def)
qed

text \<open>
  C2 (amended): take any host (environment variables, file system, parser) and any
  project directory such that no configuration file that is read has content parsing to
  \<open>null\<close>. The project-aware \<open>loadConfig\<close> returns a configuration, and each of its fields
  is the first value that is set among the environment variable, the project-local file
  and the global file, in this order, field by field; \<open>baseUrl\<close> falls back to the built-in
  default and the other fields are absent when no source sets them. The single-file
  \<open>loadConfig\<close> of src/config.ts returns a configuration whose API key and base URL are
  resolved in the same way from the environment and the global file, and whose two
  container tags are the global file's.
\<close>

theorem loadConfig_precedence:
  assumes "readProjectConfigFile h directory \<noteq> JNull" and "readConfigFile h \<noteq> JNull"
  shows "(\<exists>cfg. loadConfig h directory = Inr cfg
      \<and> present (apiKey cfg) =
          resolveField \<lparr>from_env = envVar h ''MOMO_API_KEY'',
                        from_project = fieldOf (readProjectConfigFile h directory) ''apiKey'',
                        from_global = fieldOf (readConfigFile h) ''apiKey''\<rparr>
      \<and> baseUrl cfg =
          withDefault DEFAULT_BASE_URL
            (resolveField \<lparr>from_env = envVar h ''MOMO_BASE_URL'',
                        from_project = fieldOf (readProjectConfigFile h directory) ''baseUrl'',
                        from_global = fieldOf (readConfigFile h) ''baseUrl''\<rparr>)
      \<and> present (containerTagUser cfg) =
          resolveField \<lparr>from_env = envVar h ''MOMO_CONTAINER_TAG_USER'',
                        from_project = fieldOf (readProjectConfigFile h directory) ''containerTagUser'',
                        from_global = fieldOf (readConfigFile h) ''containerTagUser''\<rparr>
      \<and> present (containerTagProject cfg) =
          resolveField \<lparr>from_env = envVar h ''MOMO_CONTAINER_TAG_PROJECT'',
                        from_project = fieldOf (readProjectConfigFile h directory) ''containerTagProject'',
                        from_global = fieldOf (readConfigFile h) ''containerTagProject''\<rparr>)
   \<and> (\<exists>cfg. loadConfig_single h = Inr cfg
      \<and> present (apiKey cfg) =
          firstSet [envVar h ''MOMO_API_KEY'', fieldOf (readConfigFile h) ''apiKey'']
      \<and> baseUrl cfg =
          withDefault DEFAULT_BASE_URL
            (firstSet [envVar h ''MOMO_BASE_URL'', fieldOf (readConfigFile h) ''baseUrl''])
      \<and> containerTagUser cfg = fieldOf (readConfigFile h) ''containerTagUser''
      \<and> containerTagProject cfg = fieldOf (readConfigFile h) ''containerTagProject'')"
proof (intro conjI)
  show "\<exists>cfg. loadConfig h directory = Inr cfg
      \<and> present (apiKey cfg) =
          resolveField \<lparr>from_env = envVar h ''MOMO_API_KEY'',
                        from_project = fieldOf (readProjectConfigFile h directory) ''apiKey'',
                        from_global = fieldOf (readConfigFile h) ''apiKey''\<rparr>
      \<and> baseUrl cfg =
          withDefault DEFAULT_BASE_URL
            (resolveField \<lparr>from_env = envVar h ''MOMO_BASE_URL'',
                        from_project = fieldOf (readProjectConfigFile h directory) ''baseUrl'',
                        from_global = fieldOf (readConfigFile h) ''baseUrl''\<rparr>)
      \<and> present (containerTagUser cfg) =
          resolveField \<lparr>from_env = envVar h ''MOMO_CONTAINER_TAG_USER'',
                        from_project = fieldOf (readProjectConfigFile h directory) ''containerTagUser'',
                        from_global = fieldOf (readConfigFile h) ''containerTagUser''\<rparr>
      \<and> present (containerTagProject cfg) =
          resolveField \<lparr>from_env = envVar h ''MOMO_CONTAINER_TAG_PROJECT'',
                        from_project = fieldOf (readProjectConfigFile h directory) ''containerTagProject'',
                        from_global = fieldOf (readConfigFile h) ''containerTagProject''\<rparr>"
    unfolding loadConfig_values[OF assms]
    by (simp add: Let_def resolveField_def present_chain3 default_chain3)
  show "\<exists>cfg. loadConfig_single h = Inr cfg
      \<and> present (apiKey cfg) =
          firstSet [envVar h ''MOMO_API_KEY'', fieldOf (readConfigFile h) ''apiKey'']
      \<and> baseUrl cfg =
          withDefault DEFAULT_BASE_URL
            (firstSet [envVar h ''MOMO_BASE_URL'', fieldOf (readConfigFile h) ''baseUrl''])
      \<and> containerTagUser cfg = fieldOf (readConfigFile h) ''containerTagUser''
      \<and> containerTagProject cfg = fieldOf (readConfigFile h) ''containerTagProject''"
    unfolding loadConfig_single_values[OF assms(2)]
    by (simp add: Let_def present_chain2 default_chain2)
qed

lemma present_Some: "present v = Some x \<Longrightarrow> v = Some x"
  by (simp add: present_def split: if_splits)

theorem loadConfig_precedence_witness:
  "readProjectConfigFile (demoHost demoEnv (demoFiles ''G'' ''P'')) (Some ''/work/app'') \<noteq> JNull
   \<and> readConfigFile (demoHost demoEnv (demoFiles ''G'' ''P'')) \<noteq> JNull
   \<and> loadConfig (demoHost demoEnv (demoFiles ''G'' ''P'')) (Some ''/work/app'') =
     Inr \<lparr>apiKey = Some (JString ''env-key''),
          baseUrl = Some (JString ''http://global:3000''),
          containerTagUser = Some (JString ''global-user''),
          containerTagProject = Some (JString ''project-tag'')\<rparr>"
proof -
  let ?h = "demoHost demoEnv (demoFiles ''G'' ''P'')"
  have g: "readConfigFile ?h = JObject [(''apiKey'', JString ''global-key''),
              (''baseUrl'', JString ''http://global:3000''),
              (''containerTagUser'', JString ''global-user'')]"
    by (simp add: demo_readConfigFile demo_globalConfigPath demo_read_global)
  have p: "readProjectConfigFile ?h (Some ''/work/app'') =
      JObject [(''apiKey'', JString ''project-key''),
               (''containerTagProject'', JString ''project-tag'')]"
    by (rule demo_read_project)
  have pn: "readProjectConfigFile ?h (Some ''/work/app'') \<noteq> JNull" by (simp add: p)
  have gn: "readConfigFile ?h \<noteq> JNull" by (simp add: g)
  from loadConfig_precedence[OF pn gn] obtain cfg where
    c: "loadConfig ?h (Some ''/work/app'') = Inr cfg"
    and k: "present (apiKey cfg) =
          resolveField \<lparr>from_env = envVar ?h ''MOMO_API_KEY'',
                        from_project = fieldOf (readProjectConfigFile ?h (Some ''/work/app'')) ''apiKey'',
                        from_global = fieldOf (readConfigFile ?h) ''apiKey''\<rparr>"
    and b: "baseUrl cfg =
          withDefault DEFAULT_BASE_URL
            (resolveField \<lparr>from_env = envVar ?h ''MOMO_BASE_URL'',
                        from_project = fieldOf (readProjectConfigFile ?h (Some ''/work/app'')) ''baseUrl'',
                        from_global = fieldOf (readConfigFile ?h) ''baseUrl''\<rparr>)"
    and u: "present (containerTagUser cfg) =
          resolveField \<lparr>from_env = envVar ?h ''MOMO_CONTAINER_TAG_USER'',
                        from_project = fieldOf (readProjectConfigFile ?h (Some ''/work/app'')) ''containerTagUser'',
                        from_global = fieldOf (readConfigFile ?h) ''containerTagUser''\<rparr>"
    and t: "present (containerTagProject cfg) =
          resolveField \<lparr>from_env = envVar ?h ''MOMO_CONTAINER_TAG_PROJECT'',
                        from_project = fieldOf (readProjectConfigFile ?h (Some ''/work/app'')) ''containerTagProject'',
                        from_global = fieldOf (readConfigFile ?h) ''containerTagProject''\<rparr>"
    by blast
  have "present (apiKey cfg) = Some (JString ''env-key'')"
    unfolding k g p demo_env
    by (simp add: resolveField_def firstSet_def isSet_def isNullish_def fieldOf_def)
  then have k': "apiKey cfg = Some (JString ''env-key'')" by (rule present_Some)
  have b': "baseUrl cfg = Some (JString ''http://global:3000'')"
    unfolding b g p demo_env
    by (simp add: resolveField_def firstSet_def isSet_def isNullish_def fieldOf_def withDefault_def)
  have "present (containerTagUser cfg) = Some (JString ''global-user'')"
    unfolding u g p demo_env
    by (simp add: resolveField_def firstSet_def isSet_def isNullish_def fieldOf_def)
  then have u': "containerTagUser cfg = Some (JString ''global-user'')" by (rule present_Some)
  have "present (containerTagProject cfg) = Some (JString ''project-tag'')"
    unfolding t g p demo_env
    by (simp add: resolveField_def firstSet_def isSet_def isNullish_def fieldOf_def)
  then have t': "containerTagProject cfg = Some (JString ''project-tag'')" by (rule present_Some)
  from k' b' u' t' have "cfg = \<lparr>apiKey = Some (JString ''env-key''),
          baseUrl = Some (JString ''http://global:3000''),
          containerTagUser = Some (JString ''global-user''),
          containerTagProject = Some (JString ''project-tag'')\<rparr>"
    by (cases cfg) simp
  with c pn gn show ?thesis by simp
qed

text \<open>
  C3, at an input where the code departs from it. The global file is absent, one of the
  three states the claim names, and the reader returns the empty object for it, as for
  every file that is absent, unreadable or does not parse (lemma \<open>unusable_empty\<close>). The
  project file \<open>.momo.jsonc\<close> holds the JSON literal \<open>null\<close>: it parses, the reader
  returns \<open>null\<close>, and \<open>loadConfig\<close> raises a TypeError at \<open>projectConfig.apiKey\<close>, outside
  any \<open>try\<close>, where the claim has it return a configuration from the remaining sources.
  The single-file \<open>loadConfig\<close> of src/config.ts raises in the same way on a global file
  that holds \<open>null\<close>.
\<close>

theorem loadConfig_raises_on_null_content:
  "unusableFile (demoHost bareEnv (projectFileOnly ''null''))
      (globalConfigPath (demoHost bareEnv (projectFileOnly ''null'')))
   \<and> readConfigFile (demoHost bareEnv (projectFileOnly ''null'')) = emptyObject
   \<and> readProjectConfigFile (demoHost bareEnv (projectFileOnly ''null'')) (Some ''/work/app'')
       = JNull
   \<and> loadConfig (demoHost bareEnv (projectFileOnly ''null'')) (Some ''/work/app'')
       = Inl TypeError
   \<and> loadConfig_single (demoHost bareEnv (demoFiles ''null'' ''P'')) = Inl TypeError"
proof (intro conjI)
  let ?h = "demoHost bareEnv (projectFileOnly ''null'')"
  show "unusableFile ?h (globalConfigPath ?h)"
    unfolding demo_globalConfigPath
    by (simp add: unusableFile_def demoHost_def projectFileOnly_def)
  show g: "readConfigFile ?h = emptyObject"
    by (simp add: demo_readConfigFile demo_globalConfigPath demo_read_global)
  show p: "readProjectConfigFile ?h (Some ''/work/app'') = JNull"
    by (rule demo_read_project)
  show "loadConfig ?h (Some ''/work/app'') = Inl TypeError"
    unfolding loadConfig_def Let_def g p demo_env
    by (simp add: getProp_def coalesce_def thenE_def isNullish_def)
  show "loadConfig_single (demoHost bareEnv (demoFiles ''null'' ''P'')) = Inl TypeError"
    unfolding loadConfig_single_def Let_def demo_readConfigFile demo_globalConfigPath
      demo_read_global demo_env
    by (simp add: getProp_def coalesce_def thenE_def isNullish_def)
qed

section \<open>Properties of the container tags\<close>

lemma getTagsWithOverrides_user:
  "user (getTagsWithOverrides pf directory overrides) =
     (case Option.bind overrides ov_containerTagUser of
        None \<Rightarrow> userTag pf
      | Some v \<Rightarrow> if v = [] then userTag pf else v)"
  by (simp add: getTagsWithOverrides_def getTags_def Let_def truthy_str_def split: option.splits)

lemma getTagsWithOverrides_project:
  "project (getTagsWithOverrides pf directory overrides) =
     (case Option.bind overrides ov_containerTagProject of
        None \<Rightarrow> projectTag pf directory
      | Some v \<Rightarrow> if v = [] then projectTag pf directory else v)"
  by (simp add: getTagsWithOverrides_def getTags_def Let_def truthy_str_def split: option.splits)

lemma userTag_nonempty: "userTag pf \<noteq> []"
  by (simp add: userTag_def)

lemma projectTag_nonempty: "projectTag pf directory \<noteq> []"
  by (simp add: projectTag_def Let_def)

text \<open>
  C4, as the code has it. The override is applied under a truthiness test, and the empty
  string is falsy: supplied as the user override, it is not returned; the derived tag is.
\<close>

theorem override_verbatim_counterexample:
  "user (getTagsWithOverrides demoPlatform ''/tmp/foo''
          (Some \<lparr>ov_containerTagUser = Some '''', ov_containerTagProject = None\<rparr>)) \<noteq> ''''"
  by (simp add: getTagsWithOverrides_user userTag_nonempty)

text \<open>
  C4 (amended): for every platform, every directory and every overrides object, a
  non-empty override string supplied for a scope is returned verbatim as the tag of that
  scope, whatever the other scope's override is; no hash enters the result.
\<close>

theorem override_verbatim:
  "(ov_containerTagUser ov = Some u \<and> u \<noteq> [] \<longrightarrow>
      user (getTagsWithOverrides pf directory (Some ov)) = u)
   \<and> (ov_containerTagProject ov = Some p \<and> p \<noteq> [] \<longrightarrow>
      project (getTagsWithOverrides pf directory (Some ov)) = p)"
  by (simp add: getTagsWithOverrides_user getTagsWithOverrides_project)

theorem override_verbatim_witness:
  "user (getTagsWithOverrides demoPlatform ''/tmp/foo''
          (Some \<lparr>ov_containerTagUser = Some ''custom-user-tag'', ov_containerTagProject = None\<rparr>))
     = ''custom-user-tag''
   \<and> project (getTagsWithOverrides demoPlatform ''/tmp/foo''
          (Some \<lparr>ov_containerTagUser = None, ov_containerTagProject = Some ''custom-project-tag''\<rparr>))
     = ''custom-project-tag''"
  using override_verbatim[where ov = "\<lparr>ov_containerTagUser = Some ''custom-user-tag'',
            ov_containerTagProject = None\<rparr>"
          and u = "''custom-user-tag''" and p = "''x''" and pf = demoPlatform
          and directory = "''/tmp/foo''"]
        override_verbatim[where ov = "\<lparr>ov_containerTagUser = None,
            ov_containerTagProject = Some ''custom-project-tag''\<rparr>"
          and u = "''x''" and p = "''custom-project-tag''" and pf = demoPlatform
          and directory = "''/tmp/foo''"]
  by simp

text \<open>
  C10: an override that is the empty string is ignored. For every platform and directory,
  a scope whose override is the empty string gets the derived tag, the one \<open>getTags\<close>
  returns, exactly as with no overrides object and as with the field left out. The
  configure command writes the empty string into both fields of a new file, and such a
  file leaves both tags derived.
\<close>

theorem empty_override_ignored:
  "(ov_containerTagUser ov = Some [] \<longrightarrow>
      user (getTagsWithOverrides pf directory (Some ov)) = user (getTags pf directory)
      \<and> user (getTagsWithOverrides pf directory (Some ov)) =
          user (getTagsWithOverrides pf directory None))
   \<and> (ov_containerTagProject ov = Some [] \<longrightarrow>
      project (getTagsWithOverrides pf directory (Some ov)) = project (getTags pf directory)
      \<and> project (getTagsWithOverrides pf directory (Some ov)) =
          project (getTagsWithOverrides pf directory None))
   \<and> getTagsWithOverrides pf directory
        (Some \<lparr>ov_containerTagUser = Some (writtenOverride None),
               ov_containerTagProject = Some (writtenOverride None)\<rparr>) = getTags pf directory"
  by (simp add: getTagsWithOverrides_user getTagsWithOverrides_project getTags_def
        getTagsWithOverrides_def writtenOverride_def truthy_str_def Let_def)

lemma demo_userTag: "userTag demoPlatform = ''opencode-user-a20fb27''"
  by (simp add: userTag_def demoPlatform_def orElse_def simpleHash_def charCodeAt_def hexDigit_def)

lemma demo_projectTag: "projectTag demoPlatform ''/tmp/foo'' = ''ocp-foo-f3770f4a''"
proof -
  have name: "basename demoPlatform (stripTrailingSeps ''/tmp/foo'') = ''foo''"
    by (simp add: demoPlatform_def stripTrailingSeps_def isPathSep_def)
  have slug: "slugify ''foo'' = ''foo''"
    by (simp add: slugify_def trimDashes_def toLowerCase_def isSlugChar_def codeUnit_def)
  have hash: "shortHash ''/tmp/foo'' = ''f3770f4a''"
    by (simp add: shortHash_def sliceLast_def padStart_def simpleHash_def charCodeAt_def
          hexDigit_def)
  have dir: "orElse ''/tmp/foo'' ''.'' = ''/tmp/foo''"
    by (simp add: orElse_def)
  show ?thesis
    unfolding projectTag_def Let_def dir name slug hash
    by (simp add: orElse_def)
qed

theorem empty_override_ignored_witness:
  "getTagsWithOverrides demoPlatform ''/tmp/foo''
        (Some \<lparr>ov_containerTagUser = Some '''', ov_containerTagProject = Some ''''\<rparr>)
     = \<lparr>user = ''opencode-user-a20fb27'', project = ''ocp-foo-f3770f4a''\<rparr>"
  using empty_override_ignored[where ov = "\<lparr>ov_containerTagUser = Some '''',
            ov_containerTagProject = Some ''''\<rparr>"
          and pf = demoPlatform and directory = "''/tmp/foo''"]
  by (simp add: writtenOverride_def getTags_def demo_userTag demo_projectTag)

section \<open>Properties of the privacy filter\<close>

lemma prefix_within:
  assumes "length m \<le> length s"
  shows "prefix m (s @ r) \<longleftrightarrow> prefix m s"
proof
  assume "prefix m (s @ r)"
  then obtain zs where "s @ r = m @ zs" by (auto simp: prefix_def)
  then obtain us where "s = m @ us \<and> us @ r = zs \<or> s @ us = m \<and> r = us @ zs"
    by (auto simp: append_eq_append_conv2)
  then show "prefix m s"
  proof
    assume "s = m @ us \<and> us @ r = zs"
    then show ?thesis by (auto simp: prefix_def)
  next
    assume h: "s @ us = m \<and> r = us @ zs"
    then have "length s + length us = length m" by (metis length_append)
    with assms have "length us = 0" by linarith
    then have "us = []" by simp
    with h show ?thesis by simp
  qed
next
  assume "prefix m s"
  then show "prefix m (s @ r)" by (auto simp: prefix_def)
qed

lemma beginsNowhere_iff:
  "beginsNowhere m a rest \<longleftrightarrow> (\<forall>k<length a. \<not> prefix m (drop k (a @ rest)))"
proof (induction a)
  case Nil
  show ?case by simp
next
  case (Cons c a)
  have "(\<forall>k<Suc (length a). \<not> prefix m (drop k ((c # a) @ rest))) \<longleftrightarrow>
        (\<not> prefix m ((c # a) @ rest) \<and> (\<forall>k<length a. \<not> prefix m (drop k (a @ rest))))"
    by (auto simp: less_Suc_eq_0_disj)
  with Cons.IH show ?case by simp
qed

lemma afterClose_first:
  assumes "beginsNowhere closeMarker x closeMarker"
  shows "afterClose (x @ closeMarker @ b) = Some b"
  using assms
proof (induction x)
  case Nil
  show ?case by (simp add: closeMarker_def)
next
  case (Cons c x)
  then have no: "\<not> prefix closeMarker ((c # x) @ closeMarker)" and rest: "beginsNowhere closeMarker x closeMarker"
    by simp_all
  have "length closeMarker \<le> length ((c # x) @ closeMarker)" by simp
  from prefix_within[OF this, of b] no
  have "\<not> prefix closeMarker (c # (x @ closeMarker @ b))" by simp
  with Cons.IH[OF rest] show ?case by simp
qed

lemma removePrivate_at_open:
  assumes "beginsNowhere closeMarker x closeMarker"
  shows "removePrivate (openMarker @ x @ closeMarker @ b) = removePrivate b"
proof -
  have "afterClose (x @ closeMarker @ b) = Some b"
    using assms by (rule afterClose_first)
  then show ?thesis by (simp add: openMarker_def)
qed

lemma removePrivate_span:
  assumes "beginsNowhere openMarker a openMarker" and "beginsNowhere closeMarker x closeMarker"
  shows "removePrivate (a @ openMarker @ x @ closeMarker @ b) = a @ removePrivate b"
  using assms(1)
proof (induction a)
  case Nil
  show ?case using assms(2) by (simp add: removePrivate_at_open)
next
  case (Cons c a)
  then have no: "\<not> prefix openMarker ((c # a) @ openMarker)" and rest: "beginsNowhere openMarker a openMarker"
    by simp_all
  have "length openMarker \<le> length ((c # a) @ openMarker)" by simp
  from prefix_within[OF this, of "x @ closeMarker @ b"] no
  have "\<not> prefix openMarker (c # (a @ openMarker @ x @ closeMarker @ b))" by simp
  with Cons.IH[OF rest] show ?case by simp
qed

lemma removePrivate_unmarked:
  "beginsNowhere openMarker s [] \<Longrightarrow> removePrivate s = s"
  by (induction s) simp_all

lemma trim_decomposes:
  "\<exists>l r. s = l @ trim s @ r \<and> list_all isWhiteSpace l \<and> list_all isWhiteSpace r"
proof -
  let ?d = "dropWhile isWhiteSpace s"
  have "rev ?d = takeWhile isWhiteSpace (rev ?d) @ dropWhile isWhiteSpace (rev ?d)"
    by simp
  then have "?d = rev (dropWhile isWhiteSpace (rev ?d)) @ rev (takeWhile isWhiteSpace (rev ?d))"
    by (metis rev_append rev_rev_ident)
  then have d: "?d = trim s @ rev (takeWhile isWhiteSpace (rev ?d))"
    by (simp add: trim_def)
  have "s = takeWhile isWhiteSpace s @ ?d" by simp
  with d have "s = takeWhile isWhiteSpace s @ trim s @ rev (takeWhile isWhiteSpace (rev ?d))"
    by simp
  moreover have "list_all isWhiteSpace (takeWhile isWhiteSpace s)"
    by (simp add: list_all_iff) (meson set_takeWhileD)
  moreover have "list_all isWhiteSpace (rev (takeWhile isWhiteSpace (rev ?d)))"
    by (simp add: list_all_iff) (meson set_takeWhileD)
  ultimately show ?thesis by blast
qed

lemma trim_ends:
  assumes "trim s \<noteq> []"
  shows "\<not> isWhiteSpace (hd (trim s)) \<and> \<not> isWhiteSpace (last (trim s))"
proof -
  let ?d = "dropWhile isWhiteSpace s"
  let ?e = "dropWhile isWhiteSpace (rev ?d)"
  from assms have e: "?e \<noteq> []" by (simp add: trim_def)
  then have d: "?d \<noteq> []" by (metis dropWhile.simps(1) rev.simps(1))
  have last: "\<not> isWhiteSpace (hd ?e)" using e by (rule hd_dropWhile)
  have "last (trim s) = hd ?e" using e by (simp add: trim_def last_rev)
  with last have l: "\<not> isWhiteSpace (last (trim s))" by simp
  have "rev ?d = takeWhile isWhiteSpace (rev ?d) @ ?e" by simp
  then have "?d = rev ?e @ rev (takeWhile isWhiteSpace (rev ?d))"
    by (metis rev_append rev_rev_ident)
  then have "hd ?d = hd (rev ?e)" using e by (metis hd_append2 rev_is_Nil_conv)
  moreover have "\<not> isWhiteSpace (hd ?d)" using d by (rule hd_dropWhile)
  ultimately have "\<not> isWhiteSpace (hd (trim s))" by (simp add: trim_def)
  with l show ?thesis by simp
qed

lemma strip_example: "stripPrivateContent (Some ''a<private>x</private>b'') = ''ab''"
  by (simp add: stripPrivateContent_def truthy_str_def openMarker_def closeMarker_def trim_def
        isWhiteSpace_def codeUnit_def)

lemma strip_multiple:
  "stripPrivateContent (Some ''a<private>1</private>b<private>2</private>c'') = ''abc''"
  by (simp add: stripPrivateContent_def truthy_str_def openMarker_def closeMarker_def trim_def
        isWhiteSpace_def codeUnit_def)

lemma strip_unterminated:
  "stripPrivateContent (Some ''a<private>x'') = ''a<private>x''"
  by (simp add: stripPrivateContent_def truthy_str_def openMarker_def closeMarker_def trim_def
        isWhiteSpace_def codeUnit_def)

text \<open>
  C6: \<open>stripPrivateContent\<close> returns the empty string for undefined and for empty input;
  on any other text it removes the private spans and trims the rest. Removal works from
  the left: where \<open>a\<close> is text in which no opening marker begins and \<open>x\<close> is content in
  which no closing marker begins (any characters, line breaks included), the span
  \<open><private>x</private>\<close> behind \<open>a\<close> is deleted and removal goes on with what follows it;
  text in which no opening marker begins is left as it is. Trimming takes white space off
  both ends only. \<open>strip("a<private>x</private>b")\<close> is \<open>"ab"\<close>, and \<open>isFullyPrivate\<close> holds
  exactly when stripping yields the empty string.
\<close>

theorem stripPrivateContent_removes_spans:
  "stripPrivateContent None = [] \<and> stripPrivateContent (Some []) = []
   \<and> (inp \<noteq> [] \<longrightarrow> stripPrivateContent (Some inp) = trim (removePrivate inp))
   \<and> (beginsNowhere openMarker a openMarker \<and> beginsNowhere closeMarker x closeMarker \<longrightarrow>
        removePrivate (a @ openMarker @ x @ closeMarker @ b) = a @ removePrivate b)
   \<and> (beginsNowhere openMarker s [] \<longrightarrow> removePrivate s = s)
   \<and> (\<exists>l r. s = l @ trim s @ r \<and> list_all isWhiteSpace l \<and> list_all isWhiteSpace r)
   \<and> (trim s \<noteq> [] \<longrightarrow> \<not> isWhiteSpace (hd (trim s)) \<and> \<not> isWhiteSpace (last (trim s)))
   \<and> stripPrivateContent (Some ''a<private>x</private>b'') = ''ab''
   \<and> (isFullyPrivate t \<longleftrightarrow> stripPrivateContent t = [])"
proof -
  have empty: "stripPrivateContent None = [] \<and> stripPrivateContent (Some []) = []"
    by (simp add: stripPrivateContent_def truthy_str_def)
  have nonempty: "inp \<noteq> [] \<longrightarrow> stripPrivateContent (Some inp) = trim (removePrivate inp)"
    by (simp add: stripPrivateContent_def truthy_str_def)
  have full: "isFullyPrivate t \<longleftrightarrow> stripPrivateContent t = []"
    by (simp add: isFullyPrivate_def Let_def)
  show ?thesis
    using empty nonempty full removePrivate_span[of a x b] removePrivate_unmarked[of s]
      trim_decomposes[of s] trim_ends[of s] strip_example
    by blast
qed

theorem stripPrivateContent_removes_spans_witness:
  "beginsNowhere openMarker ''start'' openMarker
   \<and> beginsNowhere closeMarker (''line1'' @ newline @ ''line2'' @ newline) closeMarker
   \<and> removePrivate (''start'' @ openMarker @ (''line1'' @ newline @ ''line2'' @ newline) @
                     closeMarker @ ''end'') = ''startend''
   \<and> stripPrivateContent (Some (''start'' @ openMarker @ (''line1'' @ newline @ ''line2'' @ newline) @
                     closeMarker @ ''end'')) = ''startend''
   \<and> isFullyPrivate (Some (openMarker @ ''x'' @ newline @ closeMarker))
   \<and> \<not> isFullyPrivate (Some ''keep<private>x</private>'')"
  using stripPrivateContent_removes_spans[where a = "''start''"
      and x = "''line1'' @ newline @ ''line2'' @ newline" and b = "''end''" and s = "''end''"
      and inp = "''start'' @ openMarker @ (''line1'' @ newline @ ''line2'' @ newline) @
                     closeMarker @ ''end''"
      and t = "Some (openMarker @ ''x'' @ newline @ closeMarker)"]
  by (simp add: openMarker_def closeMarker_def newline_def stripPrivateContent_def
        isFullyPrivate_def truthy_str_def trim_def isWhiteSpace_def codeUnit_def)

section \<open>Properties of the context formatter\<close>

lemma profileSection_candidates:
  "profileSection profile =
     (if summaryOf profile \<noteq> [] then [''## User Profile'' @ newline @ summaryOf profile] else [])"
  by (cases profile)
     (auto simp: profileSection_def summaryOf_def truthy_str_def split: option.splits)

lemma traitsSection_candidates:
  "traitsSection profile =
     (if traitsOf profile \<noteq> []
      then [''## Known Preferences'' @ newline @
            joinWith newline (map traitLine (traitsOf profile))]
      else [])"
  by (cases profile) (auto simp: traitsSection_def traitsOf_def split: option.splits)

lemma memorySection_candidates:
  "memorySection title ms =
     (if ms \<noteq> [] then [title @ newline @ joinWith newline (map memoryLine ms)] else [])"
  by (simp add: memorySection_def)

lemma sections_present:
  "profileSection profile @ traitsSection profile @
     memorySection ''## Recent User Context'' u @ memorySection ''## Project Knowledge'' p
   = presentSections profile u p"
  by (simp add: profileSection_candidates traitsSection_candidates memorySection_candidates
        presentSections_def candidateSections_def)

lemma presentSections_empty:
  "presentSections profile u p = [] \<longleftrightarrow>
     summaryOf profile = [] \<and> traitsOf profile = [] \<and> u = [] \<and> p = []"
  by (simp add: presentSections_def candidateSections_def)

lemma format_block:
  "formatContextForPrompt profile u p =
     (if presentSections profile u p = [] then []
      else beginMarker @ newline @ newline @
           joinWith (newline @ newline) (presentSections profile u p) @
           newline @ newline @ endMarker)"
  unfolding formatContextForPrompt_def Let_def sections_present by simp

lemma memoryLine_label: "memoryLine m = ''- '' @ interpolate (content m) @ typeLabelOf m"
  by (simp add: memoryLine_def typeLabelOf_def truthy_str_def Let_def split: option.splits)

text \<open>
  C7: \<open>formatContextForPrompt\<close> returns the empty string exactly when no section has
  content: no non-empty summary, no non-empty trait list, and both memory lists empty; so
  \<open>format(undefined, [], [])\<close> is empty. Otherwise the result is one block: the begin
  marker, a blank line, the sections that have content joined by blank lines in the fixed
  order profile summary, known preferences, user memories, project memories, a blank line,
  the end marker. The lines of a memory section are the lines of the memories in input
  order, each the content followed by the type in brackets when the memory has a
  non-empty type.
\<close>

theorem formatContextForPrompt_block:
  "(formatContextForPrompt profile u p = [] \<longleftrightarrow>
      summaryOf profile = [] \<and> traitsOf profile = [] \<and> u = [] \<and> p = [])
   \<and> formatContextForPrompt None [] [] = []
   \<and> (formatContextForPrompt profile u p \<noteq> [] \<longrightarrow>
        formatContextForPrompt profile u p =
          beginMarker @ newline @ newline @
          joinWith (newline @ newline) (presentSections profile u p) @
          newline @ newline @ endMarker
        \<and> prefix beginMarker (formatContextForPrompt profile u p)
        \<and> suffix endMarker (formatContextForPrompt profile u p))
   \<and> (\<forall>i<length u. map memoryLine u ! i = memoryLine (u ! i))
   \<and> (\<forall>i<length p. map memoryLine p ! i = memoryLine (p ! i))
   \<and> memoryLine m = ''- '' @ interpolate (content m) @ typeLabelOf m"
proof -
  have nonempty: "beginMarker \<noteq> []"
    by (simp add: beginMarker_def)
  have iff: "formatContextForPrompt profile u p = [] \<longleftrightarrow>
      summaryOf profile = [] \<and> traitsOf profile = [] \<and> u = [] \<and> p = []"
    using nonempty by (auto simp: format_block presentSections_empty)
  have none: "formatContextForPrompt None [] [] = []"
    by (simp add: format_block presentSections_def candidateSections_def summaryOf_def
          traitsOf_def)
  have block: "formatContextForPrompt profile u p \<noteq> [] \<longrightarrow>
        formatContextForPrompt profile u p =
          beginMarker @ newline @ newline @
          joinWith (newline @ newline) (presentSections profile u p) @
          newline @ newline @ endMarker
        \<and> prefix beginMarker (formatContextForPrompt profile u p)
        \<and> suffix endMarker (formatContextForPrompt profile u p)"
  proof
    assume ne: "formatContextForPrompt profile u p \<noteq> []"
    then have eq: "formatContextForPrompt profile u p =
          beginMarker @ newline @ newline @
          joinWith (newline @ newline) (presentSections profile u p) @
          newline @ newline @ endMarker"
      by (simp add: format_block split: if_splits)
    have "prefix beginMarker (formatContextForPrompt profile u p)"
      unfolding eq by simp
    moreover have "suffix endMarker (formatContextForPrompt profile u p)"
      unfolding eq by (simp add: suffix_def)
    ultimately show "formatContextForPrompt profile u p =
          beginMarker @ newline @ newline @
          joinWith (newline @ newline) (presentSections profile u p) @
          newline @ newline @ endMarker
        \<and> prefix beginMarker (formatContextForPrompt profile u p)
        \<and> suffix endMarker (formatContextForPrompt profile u p)"
      using eq by simp
  qed
  show ?thesis
  proof (intro conjI)
    show "formatContextForPrompt profile u p = [] \<longleftrightarrow>
      summaryOf profile = [] \<and> traitsOf profile = [] \<and> u = [] \<and> p = []"
      by (rule iff)
    show "formatContextForPrompt None [] [] = []" by (rule none)
    show "formatContextForPrompt profile u p \<noteq> [] \<longrightarrow>
        formatContextForPrompt profile u p =
          beginMarker @ newline @ newline @
          joinWith (newline @ newline) (presentSections profile u p) @
          newline @ newline @ endMarker
        \<and> prefix beginMarker (formatContextForPrompt profile u p)
        \<and> suffix endMarker (formatContextForPrompt profile u p)"
      by (rule block)
    show "\<forall>i<length u. map memoryLine u ! i = memoryLine (u ! i)" by simp
    show "\<forall>i<length p. map memoryLine p ! i = memoryLine (p ! i)" by simp
    show "memoryLine m = ''- '' @ interpolate (content m) @ typeLabelOf m"
      by (rule memoryLine_label)
  qed
qed

theorem formatContextForPrompt_block_witness:
  "formatContextForPrompt (Some \<lparr>summary = Some ''S'', traits = None\<rparr>) [] [] =
     ''[MOMO MEMORY - Context from previous sessions]'' @ newline @ newline @
     ''## User Profile'' @ newline @ ''S'' @ newline @ newline @ ''[END MOMO MEMORY]''
   \<and> formatContextForPrompt None
        [\<lparr>content = Some ''likes tabs'', memoryType = Some ''preference'', mem_id = None,
           createdAt = None\<rparr>,
         \<lparr>content = Some ''uses vim'', memoryType = None, mem_id = None, createdAt = None\<rparr>]
        [\<lparr>content = None, memoryType = Some '''', mem_id = None, createdAt = None\<rparr>] =
     ''[MOMO MEMORY - Context from previous sessions]'' @ newline @ newline @
     ''## Recent User Context'' @ newline @ ''- likes tabs [preference]'' @ newline @
     ''- uses vim'' @ newline @ newline @
     ''## Project Knowledge'' @ newline @ ''- undefined'' @ newline @ newline @
     ''[END MOMO MEMORY]''"
  using formatContextForPrompt_block[where profile = "Some \<lparr>summary = Some ''S'', traits = None\<rparr>"
      and u = "[]" and p = "[]"]
    formatContextForPrompt_block[where profile = None
      and u = "[\<lparr>content = Some ''likes tabs'', memoryType = Some ''preference'', mem_id = None,
           createdAt = None\<rparr>,
         \<lparr>content = Some ''uses vim'', memoryType = None, mem_id = None, createdAt = None\<rparr>]"
      and p = "[\<lparr>content = None, memoryType = Some '''', mem_id = None, createdAt = None\<rparr>]"]
  by (simp add: presentSections_def candidateSections_def summaryOf_def traitsOf_def
        memoryLine_label typeLabelOf_def interpolate_def beginMarker_def endMarker_def)

section \<open>Properties of the injection hook\<close>

lemma hook_cases:
  "chatMessageHook momo tgs input parts S = (S, parts)
   \<or> (in_sessionID input \<notin> S \<and>
       (\<exists>sp. chatMessageHook momo tgs input parts S = (insert (in_sessionID input) S, sp # parts)
             \<and> part_synthetic sp \<and> part_sessionID sp = in_sessionID input
             \<and> part_text sp \<noteq> []))
   \<or> (in_sessionID input \<notin> S \<and>
       chatMessageHook momo tgs input parts S = (insert (in_sessionID input) S, parts))"
  by (cases momo) (auto simp: chatMessageHook_def Let_def)

lemma invoke_cases:
  "invoke c S = (S, call_parts c)
   \<or> (callSession c \<notin> S \<and>
       (\<exists>sp. invoke c S = (insert (callSession c) S, sp # call_parts c)
             \<and> part_synthetic sp \<and> part_sessionID sp = callSession c \<and> part_text sp \<noteq> []))
   \<or> (callSession c \<notin> S \<and> invoke c S = (insert (callSession c) S, call_parts c))"
  unfolding invoke_def callSession_def by (rule hook_cases)

lemma partsAdded_le_1: "partsAdded c S \<le> 1"
  using invoke_cases[of c S] by (auto simp: partsAdded_def)

lemma invoke_grows: "S \<subseteq> fst (invoke c S)"
  using invoke_cases[of c S] by auto

lemma partsAdded_marks: "partsAdded c S \<noteq> 0 \<Longrightarrow> callSession c \<in> fst (invoke c S)"
  using invoke_cases[of c S] by (auto simp: partsAdded_def)

lemma partsAdded_injected: "callSession c \<in> S \<Longrightarrow> partsAdded c S = 0"
  using invoke_cases[of c S] by (auto simp: partsAdded_def)

lemma totalAdded_injected: "sid \<in> S \<Longrightarrow> totalAdded sid cs S = 0"
proof (induction cs arbitrary: S)
  case Nil
  show ?case by simp
next
  case (Cons c cs)
  from Cons.prems invoke_grows[of S c] have "sid \<in> fst (invoke c S)" by auto
  with Cons.IH have "totalAdded sid cs (fst (invoke c S)) = 0" by simp
  with Cons.prems show ?case by (simp add: partsAdded_injected)
qed

lemma totalAdded_le_1: "totalAdded sid cs S \<le> 1"
proof (induction cs arbitrary: S)
  case Nil
  show ?case by simp
next
  case (Cons c cs)
  show ?case
  proof (cases "callSession c = sid \<and> partsAdded c S \<noteq> 0")
    case True
    then have "sid \<in> fst (invoke c S)" using partsAdded_marks[of c S] by simp
    then have "totalAdded sid cs (fst (invoke c S)) = 0" by (rule totalAdded_injected)
    with True partsAdded_le_1[of c S] show ?thesis by simp
  next
    case False
    with Cons.IH[of "fst (invoke c S)"] show ?thesis by auto
  qed
qed

text \<open>
  C8: injection is idempotent per session. Take any sequence of invocations of the hook,
  for any sessions, with any backend (configured or not, every fetch resolving or
  rejecting), any tags and any parts lists supplied, starting from any set of sessions
  already injected. The invocations for one session identifier add at most one part in
  total to the lists supplied to them; in particular two invocations for the same session
  add at most one between them. An invocation leaves the list as it is or puts one
  synthetic text part of that session in front of it, and once it has, the session is in
  the set.
\<close>

theorem injection_at_most_once:
  "totalAdded sid calls injectedSessions \<le> 1
   \<and> (callSession c1 = sid \<and> callSession c2 = sid \<longrightarrow>
        partsAdded c1 injectedSessions + partsAdded c2 (fst (invoke c1 injectedSessions)) \<le> 1)
   \<and> (snd (invoke c1 injectedSessions) = call_parts c1
        \<or> (\<exists>sp. snd (invoke c1 injectedSessions) = sp # call_parts c1
                \<and> part_synthetic sp \<and> part_sessionID sp = callSession c1
                \<and> callSession c1 \<in> fst (invoke c1 injectedSessions)))"
proof (intro conjI)
  show "totalAdded sid calls injectedSessions \<le> 1" by (rule totalAdded_le_1)
  show "callSession c1 = sid \<and> callSession c2 = sid \<longrightarrow>
        partsAdded c1 injectedSessions + partsAdded c2 (fst (invoke c1 injectedSessions)) \<le> 1"
    using totalAdded_le_1[of sid "[c1, c2]" injectedSessions] by auto
  show "snd (invoke c1 injectedSessions) = call_parts c1
        \<or> (\<exists>sp. snd (invoke c1 injectedSessions) = sp # call_parts c1
                \<and> part_synthetic sp \<and> part_sessionID sp = callSession c1
                \<and> callSession c1 \<in> fst (invoke c1 injectedSessions))"
    using invoke_cases[of c1 injectedSessions] by auto
qed

lemma demo_context:
  "formatContextForPrompt (Some \<lparr>summary = Some ''N'', traits = Some []\<rparr>) [] [] \<noteq> []"
  by (simp add: formatContextForPrompt_def profileSection_def truthy_str_def Let_def
        beginMarker_def)

lemma demo_first_call:
  "\<exists>sp. invoke (demoCall ''s1'' mid) {} = ({''s1''}, [sp])"
  using demo_context
  by (simp add: invoke_def demoCall_def chatMessageHook_def profileClient_def catchNull_def
        searchResults_def profileData_def Let_def)

lemma demo_second_call:
  "invoke (demoCall ''s1'' mid) {''s1''} = ({''s1''}, [])"
  by (simp add: invoke_def demoCall_def chatMessageHook_def)

lemma demo_parts: "call_parts (demoCall sid mid) = []"
  by (simp add: demoCall_def)

theorem injection_at_most_once_witness:
  "partsAdded (demoCall ''s1'' ''m1'') {} = 1
   \<and> partsAdded (demoCall ''s1'' ''m2'') (fst (invoke (demoCall ''s1'' ''m1'') {})) = 0
   \<and> totalAdded ''s1'' [demoCall ''s1'' ''m1'', demoCall ''s1'' ''m2''] {} \<le> 1"
proof -
  obtain sp where first: "invoke (demoCall ''s1'' ''m1'') {} = ({''s1''}, [sp])"
    using demo_first_call by blast
  have a: "partsAdded (demoCall ''s1'' ''m1'') {} = 1"
    by (simp add: partsAdded_def first demo_parts)
  have b: "partsAdded (demoCall ''s1'' ''m2'') (fst (invoke (demoCall ''s1'' ''m1'') {})) = 0"
    by (simp add: partsAdded_def first demo_second_call demo_parts)
  from a b
    injection_at_most_once[of "''s1''" "[demoCall ''s1'' ''m1'', demoCall ''s1'' ''m2'']" "{}"
      "demoCall ''s1'' ''m1''" "demoCall ''s1'' ''m2''"]
  show ?thesis by simp
qed

section \<open>Properties of the wait for an ingestion\<close>

lemma terminal_iff_not_pending:
  "terminal s \<longleftrightarrow> \<not> (s = Pending \<or> s = Processing)"
  by (cases s) (simp_all add: terminal_def)

lemma waitLoop_delays:
  "waitLoop start timeoutMs pollIntervalMs script ds = Some (r, ds') \<Longrightarrow>
     \<exists>n. n < length script \<and> ds' = ds @ replicate n pollIntervalMs"
proof (induction script arbitrary: ds)
  case Nil
  then show ?case by simp
next
  case (Cons t script)
  show ?case
  proof (cases "turn_now t - start < timeoutMs \<and>
                (\<exists>status. turn_reply t = Resolved status \<and> \<not> terminal (st_status status))")
    case True
    with Cons.prems
    have "waitLoop start timeoutMs pollIntervalMs script (ds @ [pollIntervalMs]) = Some (r, ds')"
      by auto
    from Cons.IH[OF this] obtain n where
      "n < length script" "ds' = (ds @ [pollIntervalMs]) @ replicate n pollIntervalMs"
      by blast
    then have "Suc n < length (t # script) \<and> ds' = ds @ replicate (Suc n) pollIntervalMs"
      by simp
    then show ?thesis by blast
  next
    case False
    with Cons.prems have "ds' = ds"
      by (auto split: if_splits settled.splits)
    then have "0 < length (t # script) \<and> ds' = ds @ replicate 0 pollIntervalMs" by simp
    then show ?thesis by blast
  qed
qed

lemma waitLoop_terminal_reported:
  assumes "waitLoop start timeoutMs pollIntervalMs script ds = Some (Inr r, ds')"
      and "terminal (res_status r)"
  shows "\<exists>t \<in> set script. withinBudget start timeoutMs t \<and>
           (\<exists>status. turn_reply t = Resolved status \<and> r = reportedResult status)"
  using assms
proof (induction script arbitrary: ds)
  case Nil
  then show ?case by simp
next
  case (Cons t script)
  show ?case
  proof (cases "turn_now t - start < timeoutMs")
    case budget: True
    show ?thesis
    proof (cases "turn_reply t")
      case (Resolved status)
      show ?thesis
      proof (cases "terminal (st_status status)")
        case True
        with Cons.prems budget Resolved have "r = reportedResult status"
          by (simp add: reportedResult_def)
        with budget Resolved show ?thesis
          by (auto simp: withinBudget_def)
      next
        case False
        with Cons.prems budget Resolved
        have "waitLoop start timeoutMs pollIntervalMs script (ds @ [pollIntervalMs]) = Some (Inr r, ds')"
          by simp
        from Cons.IH[OF this Cons.prems(2)] show ?thesis by auto
      qed
    next
      case Rejected
      with Cons.prems budget show ?thesis by simp
    qed
  next
    case False
    with Cons.prems have "r = stillProcessing" by (simp add: stillProcessing_def)
    with Cons.prems(2) show ?thesis by (simp add: stillProcessing_def terminal_def)
  qed
qed

lemma waitLoop_error_rejected:
  assumes "waitLoop start timeoutMs pollIntervalMs script ds = Some (Inl e, ds')"
  shows "\<exists>t \<in> set script. withinBudget start timeoutMs t \<and> turn_reply t = Rejected"
  using assms
proof (induction script arbitrary: ds)
  case Nil
  then show ?case by simp
next
  case (Cons t script)
  show ?case
  proof (cases "turn_now t - start < timeoutMs \<and>
                (\<exists>status. turn_reply t = Resolved status \<and> \<not> terminal (st_status status))")
    case True
    with Cons.prems
    have "waitLoop start timeoutMs pollIntervalMs script (ds @ [pollIntervalMs]) = Some (Inl e, ds')"
      by auto
    from Cons.IH[OF this] show ?thesis by auto
  next
    case False
    with Cons.prems show ?thesis
      by (auto simp: withinBudget_def split: if_splits settled.splits)
  qed
qed

lemma waitLoop_timeout:
  assumes "\<forall>u \<in> set pending. withinBudget start timeoutMs u \<and> repliesPending u"
      and "\<not> withinBudget start timeoutMs t"
  shows "waitLoop start timeoutMs pollIntervalMs (pending @ t # later) ds =
           Some (Inr stillProcessing, ds @ replicate (length pending) pollIntervalMs)"
  using assms(1)
proof (induction pending arbitrary: ds)
  case Nil
  with assms(2) show ?case by (simp add: withinBudget_def stillProcessing_def)
next
  case (Cons u pending)
  then have b: "turn_now u - start < timeoutMs" and p: "repliesPending u"
    and rest: "\<forall>u \<in> set pending. withinBudget start timeoutMs u \<and> repliesPending u"
    by (simp_all add: withinBudget_def)
  from p obtain status where r: "turn_reply u = Resolved status" and nt: "\<not> terminal (st_status status)"
    by (auto simp: repliesPending_def terminal_iff_not_pending split: settled.splits)
  have "waitLoop start timeoutMs pollIntervalMs ((u # pending) @ t # later) ds =
        waitLoop start timeoutMs pollIntervalMs (pending @ t # later) (ds @ [pollIntervalMs])"
    using b r nt by simp
  also have "\<dots> = Some (Inr stillProcessing,
        (ds @ [pollIntervalMs]) @ replicate (length pending) pollIntervalMs)"
    by (rule Cons.IH[OF rest])
  finally show ?case by (simp add: replicate_app_Cons_same)
qed

lemma waitLoop_returns:
  assumes "clockAdvances pollIntervalMs script" and "script \<noteq> []"
      and "timeoutMs - (turn_now (hd script) - start) \<le> (int (length script) - 1) * pollIntervalMs"
  shows "\<exists>r. waitLoop start timeoutMs pollIntervalMs script ds = Some r"
  using assms
proof (induction pollIntervalMs script arbitrary: ds rule: clockAdvances.induct)
  case (1 pollIntervalMs)
  then show ?case by simp
next
  case (2 pollIntervalMs t)
  then have "\<not> turn_now t - start < timeoutMs" by simp
  then show ?case by simp
next
  case (3 pollIntervalMs t u script)
  show ?case
  proof (cases "turn_now t - start < timeoutMs \<and>
                (\<exists>status. turn_reply t = Resolved status \<and> \<not> terminal (st_status status))")
    case True
    from "3.prems" have adv: "turn_now t + pollIntervalMs \<le> turn_now u"
      and rest: "clockAdvances pollIntervalMs (u # script)" by simp_all
    from "3.prems"(3) have
      "timeoutMs - (turn_now t - start) \<le> (int (length (u # script)) - 1) * pollIntervalMs + pollIntervalMs"
      by (simp add: algebra_simps)
    with adv have "timeoutMs - (turn_now (hd (u # script)) - start)
         \<le> (int (length (u # script)) - 1) * pollIntervalMs"
      by simp
    from "3.IH"[OF rest _ this, of "ds @ [pollIntervalMs]"]
    obtain r where "waitLoop start timeoutMs pollIntervalMs (u # script) (ds @ [pollIntervalMs]) = Some r"
      by auto
    with True show ?thesis by auto
  next
    case False
    then show ?thesis
      by (auto split: settled.splits)
  qed
qed

text \<open>
  C9: for every script of clock readings and query outcomes, \<open>waitForIngestion\<close> returns
  completed or failed only with the response of a query it made while the elapsed time was
  below \<open>timeoutMs\<close>, the backend having reported that status in it; when a loop test finds
  the time elapsed after queries that all reported pending or processing, it returns the
  synthetic result with status processing, not an error; an error comes only from a
  status query that rejected within the budget. Every call of \<open>delay\<close> is given the
  caller's \<open>pollIntervalMs\<close>, one call per query that was not terminal. And the wait ends:
  when each delay lets at least the interval pass, a loop test is reached at which the
  function has returned, after at most as many turns as intervals are needed to cover
  \<open>timeoutMs\<close>, plus one.
\<close>

theorem waitForIngestion_outcomes:
  "(waitForIngestion start timeoutMs pollIntervalMs script = Some (Inr r, ds)
      \<and> terminal (res_status r) \<longrightarrow>
      (\<exists>t \<in> set script. withinBudget start timeoutMs t \<and>
         (\<exists>status. turn_reply t = Resolved status \<and> r = reportedResult status)))
   \<and> ((\<forall>u \<in> set pending. withinBudget start timeoutMs u \<and> repliesPending u)
        \<and> \<not> withinBudget start timeoutMs t \<longrightarrow>
      waitForIngestion start timeoutMs pollIntervalMs (pending @ t # later) =
        Some (Inr stillProcessing, replicate (length pending) pollIntervalMs))
   \<and> (waitForIngestion start timeoutMs pollIntervalMs script = Some (Inl e, ds) \<longrightarrow>
      (\<exists>t \<in> set script. withinBudget start timeoutMs t \<and> turn_reply t = Rejected))
   \<and> (waitForIngestion start timeoutMs pollIntervalMs script = Some (res, ds) \<longrightarrow>
      ds = replicate (length ds) pollIntervalMs \<and> length ds < length script)
   \<and> (clockAdvances pollIntervalMs script \<and> script \<noteq> [] \<and> start \<le> turn_now (hd script)
        \<and> timeoutMs \<le> (int (length script) - 1) * pollIntervalMs \<longrightarrow>
      (\<exists>res. waitForIngestion start timeoutMs pollIntervalMs script = Some res))"
proof (intro conjI impI)
  assume "waitForIngestion start timeoutMs pollIntervalMs script = Some (Inr r, ds)
      \<and> terminal (res_status r)"
  then show "\<exists>t \<in> set script. withinBudget start timeoutMs t \<and>
         (\<exists>status. turn_reply t = Resolved status \<and> r = reportedResult status)"
    using waitLoop_terminal_reported[of start timeoutMs pollIntervalMs script "[]" r ds]
    by (simp add: waitForIngestion_def)
next
  assume "(\<forall>u \<in> set pending. withinBudget start timeoutMs u \<and> repliesPending u)
        \<and> \<not> withinBudget start timeoutMs t"
  then show "waitForIngestion start timeoutMs pollIntervalMs (pending @ t # later) =
        Some (Inr stillProcessing, replicate (length pending) pollIntervalMs)"
    using waitLoop_timeout[of pending start timeoutMs t pollIntervalMs later "[]"]
    by (simp add: waitForIngestion_def)
next
  assume "waitForIngestion start timeoutMs pollIntervalMs script = Some (Inl e, ds)"
  then show "\<exists>t \<in> set script. withinBudget start timeoutMs t \<and> turn_reply t = Rejected"
    using waitLoop_error_rejected[of start timeoutMs pollIntervalMs script "[]" e ds]
    by (simp add: waitForIngestion_def)
next
  assume a: "waitForIngestion start timeoutMs pollIntervalMs script = Some (res, ds)"
  then obtain n where n: "n < length script" "ds = replicate n pollIntervalMs"
    using waitLoop_delays[of start timeoutMs pollIntervalMs script "[]" res ds]
    by (auto simp: waitForIngestion_def)
  then show "ds = replicate (length ds) pollIntervalMs" by simp
  from n show "length ds < length script" by simp
next
  assume a: "clockAdvances pollIntervalMs script \<and> script \<noteq> [] \<and> start \<le> turn_now (hd script)
        \<and> timeoutMs \<le> (int (length script) - 1) * pollIntervalMs"
  then have "timeoutMs - (turn_now (hd script) - start) \<le> (int (length script) - 1) * pollIntervalMs"
    by linarith
  with a show "\<exists>res. waitForIngestion start timeoutMs pollIntervalMs script = Some res"
    using waitLoop_returns[of pollIntervalMs script timeoutMs start "[]"]
    by (simp add: waitForIngestion_def)
qed

theorem waitForIngestion_outcomes_witness:
  "waitForIngestion 1000 3000 1500
      [pollTurn 1000 Processing, pollTurn 2500 Pending, pollTurn 4000 Completed] =
     Some (Inr stillProcessing, [1500, 1500])
   \<and> waitForIngestion 1000 3000 1500 [pollTurn 1000 Processing, pollTurn 2500 Completed] =
     Some (Inr \<lparr>res_status = Completed, res_title = None, res_documentId = Some ''doc-1''\<rparr>,
           [1500])
   \<and> clockAdvances 1500 [pollTurn 1000 Processing, pollTurn 2500 Pending, pollTurn 4000 Completed]"
  using waitForIngestion_outcomes[where start = 1000 and timeoutMs = 3000
      and pollIntervalMs = 1500
      and pending = "[pollTurn 1000 Processing, pollTurn 2500 Pending]"
      and t = "pollTurn 4000 Completed" and later = "[]"
      and script = "[pollTurn 1000 Processing, pollTurn 2500 Completed]"
      and r = "\<lparr>res_status = Completed, res_title = None, res_documentId = Some ''doc-1''\<rparr>"
      and ds = "[1500]"]
  by (simp add: waitForIngestion_def pollTurn_def withinBudget_def repliesPending_def
        terminal_def stillProcessing_def)

end
